theory Spec2Isabelle
  imports Complex_Main "HOL-Library.AList" "HOL-Library.List_Lexorder"
begin

section \<open>Python values\<close>

text \<open>
  A Python \<open>str\<close> is a sequence of Unicode code points, so a string is a list of
  code points (natural numbers), not of bytes: \<open>len\<close>, regular expressions and
  \<open>str.replace\<close> all count code points. \<open>u\<close> embeds an ASCII literal; code points
  beyond ASCII are written as numbers (\<open>243\<close> is U+00F3, \<open>322\<close> is U+0142, ...).
\<close>

type_synonym pystr = "nat list"

definition u :: "string \<Rightarrow> pystr" where
  "u s = map of_char s"

text \<open>
  A float is a real number, an infinity or NaN. Finite values are kept exact: the
  rounding of a decimal text to the nearest double is not part of the model.
\<close>

datatype pyfloat = Fin real | PInf | NInf | NaN

text \<open>The cells of a data frame are Python objects: text, floats (NaN marks a
  missing cell) and integers.\<close>

datatype pyobj = Str pystr | Flt pyfloat | Intg int

datatype error = ValueError | KeyError | TypeError | AttributeError | NotFittedError

definition bind :: "error + 'a \<Rightarrow> ('a \<Rightarrow> error + 'b) \<Rightarrow> error + 'b" where
  "bind m f = (case m of Inl e \<Rightarrow> Inl e | Inr v \<Rightarrow> f v)"

section \<open>Strings\<close>

fun starts_with :: "pystr \<Rightarrow> pystr \<Rightarrow> bool" where
  "starts_with s [] = True"
| "starts_with [] (p # ps) = False"
| "starts_with (c # cs) (p # ps) = (c = p \<and> starts_with cs ps)"

text \<open>Replacement of every non-overlapping occurrence of a literal, leftmost first
  (\<open>str.replace\<close>, and \<open>re.sub\<close> for a pattern without metacharacters).\<close>

function replace_nonempty :: "pystr \<Rightarrow> pystr \<Rightarrow> pystr \<Rightarrow> pystr" where
  "replace_nonempty old new [] = []"
| "replace_nonempty old new (c # cs) =
     (if old \<noteq> [] \<and> starts_with (c # cs) old
      then new @ replace_nonempty old new (drop (length old) (c # cs))
      else c # replace_nonempty old new cs)"
  by pat_completeness auto
termination
  by (relation "measure (\<lambda>(old, new, s). length s)") auto

definition py_replace :: "pystr \<Rightarrow> pystr \<Rightarrow> pystr \<Rightarrow> pystr" where
  "py_replace old new s =
     (if old = [] then new @ concat (map (\<lambda>c. c # new) s)
      else replace_nonempty old new s)"

section \<open>float()\<close>

text \<open>
  \<open>astype(float)\<close> on a column of objects calls \<open>float\<close> on every cell. For a
  string, CPython turns white space beyond ASCII into a blank, strips ASCII white
  space at both ends, checks the underscores (only between two digits), and then
  reads \<open>[sign] (inf | infinity | nan)\<close> without regard to case, or
  \<open>[sign] (digits [. [digits]] | . digits) [(e|E) [sign] digits]\<close>; the whole
  text must be consumed, otherwise \<open>ValueError\<close> is raised (\<open>None\<close> below).
  Decimal digits outside ASCII are not in the model.
\<close>

definition float_space :: "nat \<Rightarrow> bool" where
  "float_space c \<longleftrightarrow>
     (9 \<le> c \<and> c \<le> 13) \<or> c = 32 \<or> c = 133 \<or> c = 160 \<or> c = 5760 \<or>
     (8192 \<le> c \<and> c \<le> 8202) \<or> c = 8232 \<or> c = 8233 \<or> c = 8239 \<or>
     c = 8287 \<or> c = 12288"

definition strip :: "pystr \<Rightarrow> pystr" where
  "strip s = rev (dropWhile float_space (rev (dropWhile float_space s)))"

definition is_digit :: "nat \<Rightarrow> bool" where
  "is_digit c \<longleftrightarrow> 48 \<le> c \<and> c \<le> 57"

fun remove_underscores :: "nat \<Rightarrow> pystr \<Rightarrow> pystr option" where
  "remove_underscores prev [] = (if prev = 95 then None else Some [])"
| "remove_underscores prev (c # cs) =
     (if c = 95 then (if is_digit prev then remove_underscores c cs else None)
      else if prev = 95 \<and> \<not> is_digit c then None
      else map_option (Cons c) (remove_underscores c cs))"

definition digits_val :: "pystr \<Rightarrow> nat" where
  "digits_val ds = foldl (\<lambda>acc d. 10 * acc + (d - 48)) 0 ds"

definition ascii_lower :: "nat \<Rightarrow> nat" where
  "ascii_lower c = (if 65 \<le> c \<and> c \<le> 90 then c + 32 else c)"

definition parse_sign :: "pystr \<Rightarrow> bool \<times> pystr" where
  "parse_sign s =
     (case s of
        [] \<Rightarrow> (False, [])
      | c # cs \<Rightarrow> if c = 45 then (True, cs) else if c = 43 then (False, cs) else (False, s))"

definition parse_exponent :: "pystr \<Rightarrow> int option" where
  "parse_exponent s =
     (case s of
        [] \<Rightarrow> Some 0
      | c # cs \<Rightarrow>
          if c = 101 \<or> c = 69 then
            (let (neg, ds) = parse_sign cs in
             if ds \<noteq> [] \<and> list_all is_digit ds
             then Some (if neg then - int (digits_val ds) else int (digits_val ds))
             else None)
          else None)"

definition parse_number :: "pystr \<Rightarrow> real option" where
  "parse_number s =
     (let ip = takeWhile is_digit s;
          r1 = dropWhile is_digit s;
          (fp, r2) = (case r1 of
                        [] \<Rightarrow> ([], r1)
                      | c # t \<Rightarrow> if c = 46 then (takeWhile is_digit t, dropWhile is_digit t)
                                 else ([], r1))
      in if ip = [] \<and> fp = [] then None
         else (case parse_exponent r2 of
                 None \<Rightarrow> None
               | Some e \<Rightarrow>
                   let m = real (digits_val (ip @ fp)) / 10 ^ length fp
                   in Some (if 0 \<le> e then m * 10 ^ nat e else m / 10 ^ nat (- e))))"

definition py_float :: "pystr \<Rightarrow> pyfloat option" where
  "py_float s =
     (case remove_underscores 0 (strip (map (\<lambda>c. if 127 \<le> c \<and> float_space c then 32 else c) s)) of
        None \<Rightarrow> None
      | Some t \<Rightarrow>
          let (neg, r) = parse_sign t; w = map ascii_lower r in
          if w = u ''inf'' \<or> w = u ''infinity'' then Some (if neg then NInf else PInf)
          else if w = u ''nan'' then Some NaN
          else (case parse_number r of
                  None \<Rightarrow> None
                | Some x \<Rightarrow> Some (Fin (if neg then - x else x))))"

section \<open>Series and data frames\<close>

text \<open>
  A frame is the ordered list of its columns, each a name and a series of cells;
  \<open>df[c] = s\<close> replaces the column in place when the name exists and appends it
  otherwise, which is \<open>AList.update\<close>.

  A series has a type. \<open>read_csv\<close> gives a column the object type when one of its
  cells is text (or when the file has no row) and a numeric type otherwise, and
  \<open>Series.replace\<close> leaves a column whose cells are all NaN as a numeric one. The
  \<open>.str\<close> accessor is refused on a numeric column (\<open>AttributeError\<close>); on an
  object column a string method maps every cell that is not a string to NaN and
  gives an object column again. So the accessor applies to the series that have a
  text cell or no cell at all.
\<close>

type_synonym series = "pyobj list"
type_synonym frame = "(pystr \<times> series) list"

definition getitem :: "frame \<Rightarrow> pystr \<Rightarrow> error + series" where
  "getitem df c = (case map_of df c of None \<Rightarrow> Inl KeyError | Some s \<Rightarrow> Inr s)"

definition setitem :: "frame \<Rightarrow> pystr \<Rightarrow> series \<Rightarrow> frame" where
  "setitem df c s = AList.update c s df"

definition columns :: "frame \<Rightarrow> pystr list" where
  "columns df = map fst df"

definition drop_columns :: "frame \<Rightarrow> pystr list \<Rightarrow> error + frame" where
  "drop_columns df cs =
     (if list_all (\<lambda>c. c \<in> set (columns df)) cs
      then Inr (filter (\<lambda>(c, s). c \<notin> set cs) df)
      else Inl KeyError)"

definition mask_series :: "bool list \<Rightarrow> 'a list \<Rightarrow> 'a list" where
  "mask_series keep s = map snd (filter fst (zip keep s))"

definition select_rows :: "bool list \<Rightarrow> frame \<Rightarrow> frame" where
  "select_rows keep df = map (\<lambda>(c, s). (c, mask_series keep s)) df"

definition isna :: "pyobj \<Rightarrow> bool" where
  "isna x = (x = Flt NaN)"

definition dropna :: "frame \<Rightarrow> pystr \<Rightarrow> error + frame" where
  "dropna df c = bind (getitem df c) (\<lambda>col. Inr (select_rows (map (\<lambda>x. \<not> isna x) col) df))"

definition is_str :: "pyobj \<Rightarrow> bool" where
  "is_str x = (case x of Str s \<Rightarrow> True | _ \<Rightarrow> False)"

definition str_ok :: "series \<Rightarrow> bool" where
  "str_ok col \<longleftrightarrow> col = [] \<or> list_ex is_str col"

definition str_accessor :: "series \<Rightarrow> error + series" where
  "str_accessor col = (if str_ok col then Inr col else Inl AttributeError)"

text \<open>A string method of the accessor on one cell: NaN for a cell that is not a
  string.\<close>

definition str_cell :: "(pystr \<Rightarrow> pystr) \<Rightarrow> pyobj \<Rightarrow> pyobj" where
  "str_cell f x = (case x of Str s \<Rightarrow> Str (f s) | _ \<Rightarrow> Flt NaN)"

definition str_replace :: "pystr \<Rightarrow> pystr \<Rightarrow> series \<Rightarrow> error + series" where
  "str_replace old new col =
     bind (str_accessor col) (\<lambda>c. Inr (map (str_cell (py_replace old new)) c))"

definition series_replace :: "pyobj \<Rightarrow> pyobj \<Rightarrow> series \<Rightarrow> series" where
  "series_replace old new col = map (\<lambda>x. if x = old then new else x) col"

definition to_float :: "pyobj \<Rightarrow> error + pyfloat" where
  "to_float x =
     (case x of
        Str s \<Rightarrow> (case py_float s of None \<Rightarrow> Inl ValueError | Some v \<Rightarrow> Inr v)
      | Flt v \<Rightarrow> Inr v
      | Intg i \<Rightarrow> Inr (Fin (of_int i)))"

text \<open>\<open>astype(float)\<close> converts the whole column or raises at the first cell that
  \<open>float\<close> rejects.\<close>

fun astype_float :: "series \<Rightarrow> error + series" where
  "astype_float [] = Inr []"
| "astype_float (x # xs) =
     bind (to_float x) (\<lambda>v. bind (astype_float xs) (\<lambda>vs. Inr (Flt v # vs)))"

section \<open>Steps 3, 4, 5 and 7: size, rent and price\<close>

text \<open>
  \<^verbatim>\<open>df['size'] = df['size'].str.replace('m2', '', regex=True).str.replace(',', '.').astype(float)\<close>
  (the unit is written with U+00B2, code point 178).
\<close>

definition clean_size :: "series \<Rightarrow> error + series" where
  "clean_size col =
     bind (str_replace [109, 178] [] col) (\<lambda>c1.
     bind (str_replace [44] [46] c1) astype_float)"

definition step3 :: "frame \<Rightarrow> error + frame" where
  "step3 df =
     bind (getitem df (u ''size'')) (\<lambda>col.
     bind (clean_size col) (\<lambda>v. Inr (setitem df (u ''size'') v)))"

text \<open>
  \<^verbatim>\<open>df['Czynsz'] = (df['Czynsz'].replace('brak informacji', np.nan)
      .str.replace(' zl', '', regex=True).str.replace(',', '.', regex=True)
      .str.replace(' ', '', regex=True).astype(float))\<close>
  (the currency is written with U+0142, code point 322).
\<close>

definition zl :: pystr where
  "zl = [32, 122, 322]"

definition clean_czynsz :: "series \<Rightarrow> error + series" where
  "clean_czynsz col =
     bind (str_replace zl [] (series_replace (Str (u ''brak informacji'')) (Flt NaN) col)) (\<lambda>c1.
     bind (str_replace [44] [46] c1) (\<lambda>c2.
     bind (str_replace [32] [] c2) astype_float))"

definition step4 :: "frame \<Rightarrow> error + frame" where
  "step4 df =
     bind (getitem df (u ''Czynsz'')) (\<lambda>col.
     bind (clean_czynsz col) (\<lambda>v. Inr (setitem df (u ''Czynsz'') v)))"

text \<open>\<^verbatim>\<open>df['has_czynsz'] = df['Czynsz'].isna().astype(int)\<close>\<close>

definition step5 :: "frame \<Rightarrow> error + frame" where
  "step5 df =
     bind (getitem df (u ''Czynsz'')) (\<lambda>col.
     Inr (setitem df (u ''has_czynsz'') (map (\<lambda>x. Intg (if isna x then 1 else 0)) col)))"

text \<open>
  \<^verbatim>\<open>df['price'] = df['price'].str.replace(' zl', '', regex=True)
      .str.replace(' ', '', regex=True).str.replace(',', '.', regex=True)
  df['price'] = df['price'].replace('Pricenotavailable', np.nan).astype(float)
  df = df.dropna(subset=['price'])\<close>
\<close>

definition clean_price :: "series \<Rightarrow> error + series" where
  "clean_price col =
     bind (str_replace zl [] col) (\<lambda>c1.
     bind (str_replace [32] [] c1) (\<lambda>c2.
     bind (str_replace [44] [46] c2) (\<lambda>c3.
     astype_float (series_replace (Str (u ''Pricenotavailable'')) (Flt NaN) c3))))"

definition step7 :: "frame \<Rightarrow> error + frame" where
  "step7 df =
     bind (getitem df (u ''price'')) (\<lambda>col.
     bind (clean_price col) (\<lambda>v. dropna (setitem df (u ''price'') v) (u ''price'')))"

section \<open>Regular expressions\<close>

text \<open>
  The patterns of the notebook are sequences of literals, the dot, the classes
  \<open>\w\<close> and \<open>\s\<close> under \<open>+\<close> and \<open>*\<close>, capture groups and \<open>$\<close>. The
  matcher is the backtracking one of \<open>re\<close>: a repetition is greedy and gives
  characters back one at a time, \<open>search\<close> returns the leftmost match.

  For a \<open>str\<close> pattern \<open>\w\<close> is an alphanumeric code point or the underscore and
  \<open>\s\<close> is Unicode white space. The tables below hold the Unicode properties of
  the code points up to U+017F (Basic Latin, Latin-1 Supplement and Latin
  Extended-A, where the Polish alphabet lies); a code point after U+017F is not
  in the tables and counts as not alphanumeric and without case.
\<close>

definition unicode_isalnum :: "nat \<Rightarrow> bool" where
  "unicode_isalnum c \<longleftrightarrow>
     (48 \<le> c \<and> c \<le> 57) \<or> (65 \<le> c \<and> c \<le> 90) \<or> (97 \<le> c \<and> c \<le> 122) \<or>
     c = 170 \<or> c = 178 \<or> c = 179 \<or> c = 181 \<or> c = 185 \<or> c = 186 \<or>
     (188 \<le> c \<and> c \<le> 190) \<or> (192 \<le> c \<and> c \<le> 214) \<or> (216 \<le> c \<and> c \<le> 246) \<or>
     (248 \<le> c \<and> c \<le> 383)"

definition unicode_isspace :: "nat \<Rightarrow> bool" where
  "unicode_isspace c \<longleftrightarrow>
     (9 \<le> c \<and> c \<le> 13) \<or> (28 \<le> c \<and> c \<le> 32) \<or> c = 133 \<or> c = 160 \<or> c = 5760 \<or>
     (8192 \<le> c \<and> c \<le> 8202) \<or> c = 8232 \<or> c = 8233 \<or> c = 8239 \<or>
     c = 8287 \<or> c = 12288"

definition unicode_tolower :: "nat \<Rightarrow> nat" where
  "unicode_tolower c =
     (if (65 \<le> c \<and> c \<le> 90) \<or> (192 \<le> c \<and> c \<le> 214) \<or> (216 \<le> c \<and> c \<le> 222) then c + 32
      else if c = 304 then 105
      else if c = 376 then 255
      else if ((256 \<le> c \<and> c \<le> 303) \<or> (306 \<le> c \<and> c \<le> 311) \<or> (330 \<le> c \<and> c \<le> 375)) \<and> even c
        then c + 1
      else if ((313 \<le> c \<and> c \<le> 328) \<or> (377 \<le> c \<and> c \<le> 382)) \<and> odd c then c + 1
      else c)"

definition unicode_toupper :: "nat \<Rightarrow> nat" where
  "unicode_toupper c =
     (if (97 \<le> c \<and> c \<le> 122) \<or> (224 \<le> c \<and> c \<le> 246) \<or> (248 \<le> c \<and> c \<le> 254) then c - 32
      else if c = 181 then 924
      else if c = 223 then 83
      else if c = 255 then 376
      else if c = 305 then 73
      else if c = 329 then 700
      else if c = 383 then 83
      else if ((256 \<le> c \<and> c \<le> 303) \<or> (306 \<le> c \<and> c \<le> 311) \<or> (330 \<le> c \<and> c \<le> 375)) \<and> odd c
        then c - 1
      else if ((313 \<le> c \<and> c \<le> 328) \<or> (377 \<le> c \<and> c \<le> 382)) \<and> even c then c - 1
      else c)"

definition unicode_iscased :: "nat \<Rightarrow> bool" where
  "unicode_iscased c \<longleftrightarrow> c \<noteq> unicode_tolower c \<or> c \<noteq> unicode_toupper c"

text \<open>The lower-case code points that \<open>re\<close> identifies with another one when case
  is ignored (dotless i, long s, the micro sign).\<close>

definition ignorecase_fixes :: "nat \<Rightarrow> nat list" where
  "ignorecase_fixes lo =
     (if lo = 105 then [305] else if lo = 305 then [105]
      else if lo = 115 then [383] else if lo = 383 then [115]
      else if lo = 181 then [956] else if lo = 956 then [181]
      else [])"

datatype cclass = Word | Space

datatype atom = Lit nat | AnyChar | Plus cclass | Star cclass | Open | Close | Eol

fun in_class :: "cclass \<Rightarrow> nat \<Rightarrow> bool" where
  "in_class Word c = (unicode_isalnum c \<or> c = 95)"
| "in_class Space c = unicode_isspace c"

definition lit_match :: "bool \<Rightarrow> nat \<Rightarrow> nat \<Rightarrow> bool" where
  "lit_match ignorecase p x =
     (if ignorecase \<and> unicode_iscased p
      then unicode_tolower x \<in> set (unicode_tolower p # ignorecase_fixes (unicode_tolower p))
      else x = p)"

text \<open>
  \<open>match_here ic p s opens groups\<close> matches the pattern \<open>p\<close> at the start of \<open>s\<close>;
  \<open>opens\<close> holds the text that was left when each open group began and \<open>groups\<close>
  the groups closed so far. \<open>$\<close> matches at the end of the text and before a
  line feed that ends it.
\<close>

function match_here :: "bool \<Rightarrow> atom list \<Rightarrow> pystr \<Rightarrow> pystr list \<Rightarrow> pystr list \<Rightarrow> pystr list option" where
  "match_here ic [] s opens groups = Some groups"
| "match_here ic (Lit p # r) s opens groups =
     (case s of
        [] \<Rightarrow> None
      | x # xs \<Rightarrow> if lit_match ic p x then match_here ic r xs opens groups else None)"
| "match_here ic (AnyChar # r) s opens groups =
     (case s of
        [] \<Rightarrow> None
      | x # xs \<Rightarrow> if x \<noteq> 10 then match_here ic r xs opens groups else None)"
| "match_here ic (Plus k # r) s opens groups =
     (case s of
        [] \<Rightarrow> None
      | x # xs \<Rightarrow> if in_class k x then match_here ic (Star k # r) xs opens groups else None)"
| "match_here ic (Star k # r) s opens groups =
     (case s of
        [] \<Rightarrow> match_here ic r s opens groups
      | x # xs \<Rightarrow>
          if in_class k x
          then (case match_here ic (Star k # r) xs opens groups of
                  Some g \<Rightarrow> Some g
                | None \<Rightarrow> match_here ic r s opens groups)
          else match_here ic r s opens groups)"
| "match_here ic (Open # r) s opens groups = match_here ic r s (s # opens) groups"
| "match_here ic (Close # r) s opens groups =
     (case opens of
        [] \<Rightarrow> None
      | b # bs \<Rightarrow> match_here ic r s bs (groups @ [take (length b - length s) b]))"
| "match_here ic (Eol # r) s opens groups =
     (if s = [] \<or> s = [10] then match_here ic r s opens groups else None)"
  by pat_completeness auto
termination
  by (relation "measures [\<lambda>(ic, p, s, opens, groups). length s,
                          \<lambda>(ic, p, s, opens, groups). length p]") auto

fun search :: "bool \<Rightarrow> atom list \<Rightarrow> pystr \<Rightarrow> pystr list option" where
  "search ic p [] = match_here ic p [] [] []"
| "search ic p (c # cs) =
     (case match_here ic p (c # cs) [] [] of
        Some g \<Rightarrow> Some g
      | None \<Rightarrow> search ic p cs)"

text \<open>\<open>str.extract(pat)[i]\<close> on one cell: group \<open>i\<close> of the first match, NaN where
  the cell is not a string or nothing matches.\<close>

definition extract_cell :: "atom list \<Rightarrow> nat \<Rightarrow> pyobj \<Rightarrow> pyobj" where
  "extract_cell p i x =
     (case x of
        Str s \<Rightarrow> (case search False p s of
                   None \<Rightarrow> Flt NaN
                 | Some g \<Rightarrow> if i < length g then Str (g ! i) else Flt NaN)
      | _ \<Rightarrow> Flt NaN)"

text \<open>\<open>str.contains(pat, case=False, na=False)\<close>: whether the pattern, read as a
  regular expression, matches somewhere; false for a cell that is not a string.\<close>

definition contains_cell :: "atom list \<Rightarrow> pyobj \<Rightarrow> bool" where
  "contains_cell p x = (case x of Str s \<Rightarrow> search True p s \<noteq> None | _ \<Rightarrow> False)"

definition str_contains :: "atom list \<Rightarrow> series \<Rightarrow> error + bool list" where
  "str_contains p col = bind (str_accessor col) (\<lambda>c. Inr (map (contains_cell p) c))"

section \<open>Step 6: city, neighborhood and region\<close>

text \<open>
  \<^verbatim>\<open>df['city'] = df['location'].str.extract(r'(\w+),\s*\w+,\s*(\w+)$')[0]
  df['neighborhood'] = df['location'].str.extract(r'(\w+),\s*(\w+),\s*\w+$')[1]
  df['region'] = df['location'].str.extract(r'(\w+)$')[0]
  df = df.drop(columns=['location'])\<close>
\<close>

definition city_pattern :: "atom list" where
  "city_pattern =
     [Open, Plus Word, Close, Lit 44, Star Space, Plus Word, Lit 44, Star Space,
      Open, Plus Word, Close, Eol]"

definition neighborhood_pattern :: "atom list" where
  "neighborhood_pattern =
     [Open, Plus Word, Close, Lit 44, Star Space, Open, Plus Word, Close, Lit 44, Star Space,
      Plus Word, Eol]"

definition region_pattern :: "atom list" where
  "region_pattern = [Open, Plus Word, Close, Eol]"

definition city :: "pyobj \<Rightarrow> pyobj" where
  "city loc = extract_cell city_pattern 0 loc"

definition neighborhood :: "pyobj \<Rightarrow> pyobj" where
  "neighborhood loc = extract_cell neighborhood_pattern 1 loc"

definition region :: "pyobj \<Rightarrow> pyobj" where
  "region loc = extract_cell region_pattern 0 loc"

definition str_extract :: "(pyobj \<Rightarrow> pyobj) \<Rightarrow> series \<Rightarrow> error + series" where
  "str_extract part col = bind (str_accessor col) (\<lambda>c. Inr (map part c))"

definition step6 :: "frame \<Rightarrow> error + frame" where
  "step6 df =
     bind (getitem df (u ''location'')) (\<lambda>loc. bind (str_extract city loc) (\<lambda>c.
     let df1 = setitem df (u ''city'') c in
     bind (getitem df1 (u ''location'')) (\<lambda>loc1. bind (str_extract neighborhood loc1) (\<lambda>n.
     let df2 = setitem df1 (u ''neighborhood'') n in
     bind (getitem df2 (u ''location'')) (\<lambda>loc2. bind (str_extract region loc2) (\<lambda>r.
     let df3 = setitem df2 (u ''region'') r in
     drop_columns df3 [u ''location'']))))))"

section \<open>Step 9: amenities\<close>

text \<open>
  \<^verbatim>\<open>def extract_amenities(data):
      amenities = ['balkon', 'taras', 'garaz/miejsce parkingowe', 'piwnica',
                   'oddzielna kuchnia', 'ogrodek', 'pom. uzytkowe']
      for amenity in amenities:
          data[f'has_{amenity.replace("/", "_").replace(" ", "_").lower()}'] =
              data['Informacje dodatkowe'].str.contains(amenity, case=False, na=False).astype(int)
      return data\<close>
  (with U+017C in the third and the last phrase and U+00F3 in the sixth).
  \<open>str.contains\<close> reads its argument as a regular expression: of the characters
  of the vocabulary only the dot of the last phrase is a metacharacter.
\<close>

definition amenities :: "pystr list" where
  "amenities =
     [u ''balkon'', u ''taras'', u ''gara'' @ [380] @ u ''/miejsce parkingowe'', u ''piwnica'',
      u ''oddzielna kuchnia'', u ''ogr'' @ [243] @ u ''dek'', u ''pom. u'' @ [380] @ u ''ytkowe'']"

definition compile_phrase :: "pystr \<Rightarrow> atom list" where
  "compile_phrase a = map (\<lambda>c. if c = 46 then AnyChar else Lit c) a"

definition str_lower :: "pystr \<Rightarrow> pystr" where
  "str_lower s = map unicode_tolower s"

definition amenity_column :: "pystr \<Rightarrow> pystr" where
  "amenity_column a = u ''has_'' @ str_lower (py_replace [32] [95] (py_replace [47] [95] a))"

definition info :: pystr where
  "info = u ''Informacje dodatkowe''"

definition amenity_indicator :: "pystr \<Rightarrow> series \<Rightarrow> error + series" where
  "amenity_indicator a col =
     bind (str_contains (compile_phrase a) col) (\<lambda>bs.
     Inr (map (\<lambda>b. Intg (if b then 1 else 0)) bs))"

fun extract_amenities_loop :: "pystr list \<Rightarrow> frame \<Rightarrow> error + frame" where
  "extract_amenities_loop [] data = Inr data"
| "extract_amenities_loop (a # as) data =
     bind (getitem data info) (\<lambda>col. bind (amenity_indicator a col) (\<lambda>ind.
     extract_amenities_loop as (setitem data (amenity_column a) ind)))"

definition extract_amenities :: "frame \<Rightarrow> error + frame" where
  "extract_amenities data = extract_amenities_loop amenities data"

definition step9 :: "frame \<Rightarrow> error + frame" where
  "step9 df = bind (extract_amenities df) (\<lambda>df1. drop_columns df1 [info])"

section \<open>Float arithmetic\<close>

text \<open>Arithmetic on floats is exact on finite values and follows IEEE 754 on the
  infinities and NaN; rounding, overflow and the sign of zero are not modelled. A
  comparison with NaN is false.\<close>

fun fneg :: "pyfloat \<Rightarrow> pyfloat" where
  "fneg (Fin a) = Fin (- a)"
| "fneg PInf = NInf"
| "fneg NInf = PInf"
| "fneg NaN = NaN"

fun fadd :: "pyfloat \<Rightarrow> pyfloat \<Rightarrow> pyfloat" where
  "fadd NaN b = NaN"
| "fadd a NaN = NaN"
| "fadd (Fin a) (Fin b) = Fin (a + b)"
| "fadd PInf NInf = NaN"
| "fadd NInf PInf = NaN"
| "fadd PInf b = PInf"
| "fadd NInf b = NInf"
| "fadd (Fin a) b = b"

definition fsub :: "pyfloat \<Rightarrow> pyfloat \<Rightarrow> pyfloat" where
  "fsub a b = fadd a (fneg b)"

definition inf_of_sign :: "real \<Rightarrow> pyfloat" where
  "inf_of_sign a = (if a = 0 then NaN else if 0 < a then PInf else NInf)"

fun fmul :: "pyfloat \<Rightarrow> pyfloat \<Rightarrow> pyfloat" where
  "fmul NaN b = NaN"
| "fmul a NaN = NaN"
| "fmul (Fin a) (Fin b) = Fin (a * b)"
| "fmul (Fin a) PInf = inf_of_sign a"
| "fmul (Fin a) NInf = inf_of_sign (- a)"
| "fmul PInf (Fin b) = inf_of_sign b"
| "fmul NInf (Fin b) = inf_of_sign (- b)"
| "fmul PInf PInf = PInf"
| "fmul NInf NInf = PInf"
| "fmul PInf NInf = NInf"
| "fmul NInf PInf = NInf"

fun fdiv :: "pyfloat \<Rightarrow> pyfloat \<Rightarrow> pyfloat" where
  "fdiv NaN b = NaN"
| "fdiv a NaN = NaN"
| "fdiv (Fin a) (Fin b) = (if b = 0 then inf_of_sign a else Fin (a / b))"
| "fdiv (Fin a) b = Fin 0"
| "fdiv PInf (Fin b) = (if 0 \<le> b then PInf else NInf)"
| "fdiv NInf (Fin b) = (if 0 \<le> b then NInf else PInf)"
| "fdiv a b = NaN"

fun flt :: "pyfloat \<Rightarrow> pyfloat \<Rightarrow> bool" where
  "flt NaN b = False"
| "flt a NaN = False"
| "flt (Fin a) (Fin b) = (a < b)"
| "flt a PInf = (a \<noteq> PInf)"
| "flt NInf b = (b \<noteq> NInf)"
| "flt a b = False"

definition fgt :: "pyfloat \<Rightarrow> pyfloat \<Rightarrow> bool" where
  "fgt a b = flt b a"

text \<open>The values of a numeric column; arithmetic on a cell of text raises
  \<open>TypeError\<close>.\<close>

fun float_values :: "series \<Rightarrow> error + pyfloat list" where
  "float_values [] = Inr []"
| "float_values (x # xs) =
     (case x of
        Str s \<Rightarrow> Inl TypeError
      | Flt v \<Rightarrow> bind (float_values xs) (\<lambda>vs. Inr (v # vs))
      | Intg i \<Rightarrow> bind (float_values xs) (\<lambda>vs. Inr (Fin (of_int i) # vs)))"

section \<open>Step 8: price per square metre\<close>

text \<open>\<^verbatim>\<open>df['price_per_sqm'] = df['price'] / df['size']\<close>\<close>

definition step8 :: "frame \<Rightarrow> error + frame" where
  "step8 df =
     bind (getitem df (u ''price'')) (\<lambda>p. bind (float_values p) (\<lambda>ps.
     bind (getitem df (u ''size'')) (\<lambda>s. bind (float_values s) (\<lambda>ss.
     Inr (setitem df (u ''price_per_sqm'') (map Flt (map2 fdiv ps ss)))))))"

section \<open>Step 10: outliers\<close>

text \<open>
  \<open>Series.quantile(q)\<close> skips NaN, sorts the values that are present and
  interpolates linearly between the two neighbours of position \<open>q (n - 1)\<close>:
  \<open>i + (j - i) * fraction\<close>; it is NaN when no value is present.
\<close>

fun insort_float :: "pyfloat \<Rightarrow> pyfloat list \<Rightarrow> pyfloat list" where
  "insort_float x [] = [x]"
| "insort_float x (y # ys) = (if flt y x then y # insort_float x ys else x # y # ys)"

definition sort_floats :: "pyfloat list \<Rightarrow> pyfloat list" where
  "sort_floats xs = foldr insort_float xs []"

definition quantile :: "pyfloat list \<Rightarrow> real \<Rightarrow> pyfloat" where
  "quantile col q =
     (let vs = sort_floats (filter (\<lambda>v. v \<noteq> NaN) col); n = length vs in
      if n = 0 then NaN
      else
        let pos = q * real (n - 1);
            lo = nat \<lfloor>pos\<rfloor>;
            hi = min (lo + 1) (n - 1);
            fraction = pos - real lo
        in fadd (vs ! lo) (fmul (fsub (vs ! hi) (vs ! lo)) (Fin fraction)))"

text \<open>
  \<^verbatim>\<open>def remove_outliers(df, column):
      Q1 = df[column].quantile(0.25)
      Q3 = df[column].quantile(0.75)
      IQR = Q3 - Q1
      return df[(df[column] > (Q1 - 1.5 * IQR)) & (df[column] < (Q3 + 1.5 * IQR))]

  df = remove_outliers(df, 'price')
  df = remove_outliers(df, 'size')\<close>
\<close>

definition remove_outliers :: "frame \<Rightarrow> pystr \<Rightarrow> error + frame" where
  "remove_outliers df column =
     bind (getitem df column) (\<lambda>col. bind (float_values col) (\<lambda>vs.
     let Q1 = quantile vs 0.25;
         Q3 = quantile vs 0.75;
         IQR = fsub Q3 Q1;
         above = map (\<lambda>v. fgt v (fsub Q1 (fmul (Fin 1.5) IQR))) vs;
         below = map (\<lambda>v. flt v (fadd Q3 (fmul (Fin 1.5) IQR))) vs
     in Inr (select_rows (map2 (\<and>) above below) df)))"

definition step10 :: "frame \<Rightarrow> error + frame" where
  "step10 df =
     bind (remove_outliers df (u ''price'')) (\<lambda>df1. remove_outliers df1 (u ''size''))"

section \<open>Step 11: the target\<close>

text \<open>\<open>np.log\<close> and \<open>np.exp\<close> raise nothing: the logarithm of zero is minus
  infinity and that of a negative number is NaN (with a warning).\<close>

fun np_log :: "pyfloat \<Rightarrow> pyfloat" where
  "np_log (Fin x) = (if 0 < x then Fin (ln x) else if x = 0 then NInf else NaN)"
| "np_log PInf = PInf"
| "np_log NInf = NaN"
| "np_log NaN = NaN"

fun np_exp :: "pyfloat \<Rightarrow> pyfloat" where
  "np_exp (Fin x) = Fin (exp x)"
| "np_exp PInf = PInf"
| "np_exp NInf = Fin 0"
| "np_exp NaN = NaN"

text \<open>\<^verbatim>\<open>df['log_price'] = np.log(df['price'])\<close>\<close>

definition step11 :: "frame \<Rightarrow> error + frame" where
  "step11 df =
     bind (getitem df (u ''price'')) (\<lambda>p. bind (float_values p) (\<lambda>ps.
     Inr (setitem df (u ''log_price'') (map Flt (map np_log ps)))))"

text \<open>Steps 3 to 11 of the notebook, on the frame read from the CSV file.\<close>

definition prepare :: "frame \<Rightarrow> error + frame" where
  "prepare df0 =
     bind (step3 df0) (\<lambda>df3. bind (step4 df3) (\<lambda>df4. bind (step5 df4) (\<lambda>df5.
     bind (step6 df5) (\<lambda>df6. bind (step7 df6) (\<lambda>df7. bind (step8 df7) (\<lambda>df8.
     bind (step9 df8) (\<lambda>df9. bind (step10 df9) step11)))))))"

section \<open>Steps 12 and 13: features\<close>

text \<open>
  \<^verbatim>\<open>X = df.drop(columns=['price', 'log_price', 'title'])
  y = df['log_price']
  categorical_features = ['Ogrzewanie', 'Pietro', 'Stan wykonczenia', 'Rynek',
      'Forma wlasnosci', 'Typ ogloszeniodawcy', 'neighborhood']
  numerical_features = ['size', 'Czynsz', 'has_czynsz', 'price_per_sqm'] +
      [col for col in df.columns if col.startswith('has_')]\<close>
\<close>

definition step12 :: "frame \<Rightarrow> error + frame \<times> series" where
  "step12 df =
     bind (drop_columns df [u ''price'', u ''log_price'', u ''title'']) (\<lambda>X.
     bind (getitem df (u ''log_price'')) (\<lambda>y. Inr (X, y)))"

definition categorical_features :: "pystr list" where
  "categorical_features =
     [u ''Ogrzewanie'', u ''Pi'' @ [281] @ u ''tro'', u ''Stan wyko'' @ [324] @ u ''czenia'',
      u ''Rynek'', u ''Forma w'' @ [322] @ u ''asno'' @ [347] @ u ''ci'',
      u ''Typ og'' @ [322] @ u ''oszeniodawcy'', u ''neighborhood'']"

definition numerical_features :: "frame \<Rightarrow> pystr list" where
  "numerical_features df =
     [u ''size'', u ''Czynsz'', u ''has_czynsz'', u ''price_per_sqm''] @
     filter (\<lambda>col. starts_with col (u ''has_'')) (columns df)"

section \<open>Steps 13 and 14: the preprocessing pipeline and the model\<close>

text \<open>
  \<^verbatim>\<open>numerical_transformer = Pipeline(steps=[('imputer', SimpleImputer(strategy='mean')),
                                          ('scaler', StandardScaler())])
  categorical_transformer = Pipeline(steps=[
      ('imputer', SimpleImputer(strategy='constant', fill_value='missing')),
      ('onehot', OneHotEncoder(handle_unknown='ignore'))])
  preprocessor = ColumnTransformer(transformers=[
      ('num', numerical_transformer, numerical_features),
      ('cat', categorical_transformer, categorical_features)])
  model = Pipeline(steps=[('preprocessor', preprocessor), ('regressor', XGBRegressor(...))])\<close>

  The transformers are those of scikit-learn. Fitting the numeric branch on a
  column stores the mean of the values present (the imputer's statistic) and the
  mean and standard deviation of the imputed column (a deviation of zero is
  replaced by one); a column with no value present is left out of the output, and
  an infinite value or an empty column is rejected. Fitting the categorical branch
  stores the sorted distinct values of the column, the missing cells filled with
  \<open>'missing'\<close>; in the output a value that was not seen gives zeros only. A
  transformer is an object, so every operation takes the object and returns it
  with its result. The matrix of features is kept as the list of its columns.
\<close>

fun sequence :: "(error + 'a) list \<Rightarrow> error + 'a list" where
  "sequence [] = Inr []"
| "sequence (m # ms) = bind m (\<lambda>v. bind (sequence ms) (\<lambda>vs. Inr (v # vs)))"

record numeric_stats =
  imputer_statistic :: real
  scaler_mean :: real
  scaler_scale :: real

definition finite_values :: "pyfloat list \<Rightarrow> real list" where
  "finite_values col = concat (map (\<lambda>v. case v of Fin x \<Rightarrow> [x] | _ \<Rightarrow> []) col)"

definition no_infinity :: "pyfloat list \<Rightarrow> bool" where
  "no_infinity col = list_all (\<lambda>v. v \<noteq> PInf \<and> v \<noteq> NInf) col"

definition average :: "real list \<Rightarrow> real" where
  "average xs = sum_list xs / real (length xs)"

definition impute :: "real \<Rightarrow> pyfloat list \<Rightarrow> real list" where
  "impute m col = map (\<lambda>v. case v of Fin x \<Rightarrow> x | _ \<Rightarrow> m) col"

definition numeric_fit :: "pyfloat list \<Rightarrow> error + numeric_stats option" where
  "numeric_fit col =
     (if col = [] \<or> \<not> no_infinity col then Inl ValueError
      else if finite_values col = [] then Inr None
      else
        let m = average (finite_values col);
            xs = impute m col;
            mu = average xs;
            var = average (map (\<lambda>x. (x - mu)\<^sup>2) xs)
        in Inr (Some \<lparr>imputer_statistic = m, scaler_mean = mu,
                       scaler_scale = (if var = 0 then 1 else sqrt var)\<rparr>))"

definition numeric_transform :: "numeric_stats option \<Rightarrow> pyfloat list \<Rightarrow> error + real list list" where
  "numeric_transform st col =
     (if col = [] \<or> \<not> no_infinity col then Inl ValueError
      else (case st of
              None \<Rightarrow> Inr []
            | Some t \<Rightarrow>
                Inr [map (\<lambda>x. (x - scaler_mean t) / scaler_scale t)
                         (impute (imputer_statistic t) col)]))"

definition impute_constant :: "pyobj \<Rightarrow> error + pystr" where
  "impute_constant x =
     (case x of
        Str s \<Rightarrow> Inr s
      | Flt v \<Rightarrow> if v = NaN then Inr (u ''missing'') else Inl TypeError
      | Intg i \<Rightarrow> Inl TypeError)"

definition categorical_fit :: "series \<Rightarrow> error + pystr list" where
  "categorical_fit col =
     (if col = [] then Inl ValueError
      else bind (sequence (map impute_constant col)) (\<lambda>ss. Inr (sort (remdups ss))))"

definition categorical_transform :: "pystr list \<Rightarrow> series \<Rightarrow> error + real list list" where
  "categorical_transform cats col =
     (if col = [] then Inl ValueError
      else bind (sequence (map impute_constant col)) (\<lambda>ss.
           Inr (map (\<lambda>c. map (\<lambda>s. if s = c then 1 else 0) ss) cats)))"

record fitted_stats =
  num_stats :: "numeric_stats option list"
  categories :: "pystr list list"

record column_transformer =
  num_features :: "pystr list"
  cat_features :: "pystr list"
  fitted :: "fitted_stats option"

definition select_columns :: "frame \<Rightarrow> pystr list \<Rightarrow> error + series list" where
  "select_columns X names =
     sequence (map (\<lambda>c. case map_of X c of None \<Rightarrow> Inl ValueError | Some s \<Rightarrow> Inr s) names)"

definition num_branch_fit :: "pystr list \<Rightarrow> frame \<Rightarrow> error + numeric_stats option list" where
  "num_branch_fit names X =
     bind (select_columns X names) (\<lambda>ncols.
     bind (sequence (map float_values ncols)) (\<lambda>nvals.
     sequence (map numeric_fit nvals)))"

definition num_branch_transform ::
  "numeric_stats option list \<Rightarrow> pystr list \<Rightarrow> frame \<Rightarrow> error + real list list list" where
  "num_branch_transform stats names X =
     bind (select_columns X names) (\<lambda>ncols.
     bind (sequence (map float_values ncols)) (\<lambda>nvals.
     sequence (map2 numeric_transform stats nvals)))"

definition cat_branch_fit :: "pystr list \<Rightarrow> frame \<Rightarrow> error + pystr list list" where
  "cat_branch_fit names X =
     bind (select_columns X names) (\<lambda>ccols. sequence (map categorical_fit ccols))"

definition cat_branch_transform ::
  "pystr list list \<Rightarrow> pystr list \<Rightarrow> frame \<Rightarrow> error + real list list list" where
  "cat_branch_transform cats names X =
     bind (select_columns X names) (\<lambda>ccols. sequence (map2 categorical_transform cats ccols))"

definition fit_statistics :: "column_transformer \<Rightarrow> frame \<Rightarrow> error + fitted_stats" where
  "fit_statistics ct X =
     bind (num_branch_fit (num_features ct) X) (\<lambda>nstats.
     bind (cat_branch_fit (cat_features ct) X) (\<lambda>cats.
     Inr \<lparr>num_stats = nstats, categories = cats\<rparr>))"

definition preprocessor_fit :: "column_transformer \<Rightarrow> frame \<Rightarrow> error + column_transformer" where
  "preprocessor_fit ct X = bind (fit_statistics ct X) (\<lambda>st. Inr (ct\<lparr>fitted := Some st\<rparr>))"

definition preprocessor_transform ::
  "column_transformer \<Rightarrow> frame \<Rightarrow> error + column_transformer \<times> real list list" where
  "preprocessor_transform ct X =
     (case fitted ct of
        None \<Rightarrow> Inl NotFittedError
      | Some st \<Rightarrow>
          bind (num_branch_transform (num_stats st) (num_features ct) X) (\<lambda>nout.
          bind (cat_branch_transform (categories st) (cat_features ct) X) (\<lambda>cout.
          Inr (ct, concat nout @ concat cout))))"

definition preprocessor_fit_transform ::
  "column_transformer \<Rightarrow> frame \<Rightarrow> error + column_transformer \<times> real list list" where
  "preprocessor_fit_transform ct X = bind (preprocessor_fit ct X) (\<lambda>ct1. preprocessor_transform ct1 X)"

definition preprocessor :: "frame \<Rightarrow> column_transformer" where
  "preprocessor df =
     \<lparr>num_features = numerical_features df, cat_features = categorical_features, fitted = None\<rparr>"

text \<open>
  The regressor is XGBoost's: its training \<open>xgb_fit\<close> and its prediction
  \<open>xgb_predict\<close> are parameters. \<open>fit_calls\<close> counts the calls of \<open>fit\<close>; it is
  not a field of the Python object.
\<close>

record 'm pipeline =
  pipeline_preprocessor :: column_transformer
  regressor :: "'m option"
  fit_calls :: nat

definition model :: "frame \<Rightarrow> 'm pipeline" where
  "model df = \<lparr>pipeline_preprocessor = preprocessor df, regressor = None, fit_calls = 0\<rparr>"

definition model_fit ::
  "(real list list \<Rightarrow> pyfloat list \<Rightarrow> error + 'm) \<Rightarrow> 'm pipeline \<Rightarrow> frame \<Rightarrow> pyfloat list
     \<Rightarrow> error + 'm pipeline" where
  "model_fit xgb_fit pl X y =
     bind (preprocessor_fit_transform (pipeline_preprocessor pl) X) (\<lambda>(ct, Xt).
     bind (xgb_fit Xt y) (\<lambda>m.
     Inr (pl\<lparr>pipeline_preprocessor := ct, regressor := Some m, fit_calls := fit_calls pl + 1\<rparr>)))"

definition model_predict ::
  "('m \<Rightarrow> real list list \<Rightarrow> real list) \<Rightarrow> 'm pipeline \<Rightarrow> frame
     \<Rightarrow> error + 'm pipeline \<times> real list" where
  "model_predict xgb_predict pl X =
     (case regressor pl of
        None \<Rightarrow> Inl NotFittedError
      | Some m \<Rightarrow>
          bind (preprocessor_transform (pipeline_preprocessor pl) X) (\<lambda>(ct, Xt).
          Inr (pl\<lparr>pipeline_preprocessor := ct\<rparr>, xgb_predict m Xt)))"

section \<open>Steps 15 and 16: training and evaluation\<close>

text \<open>
  \<^verbatim>\<open>X_train, X_test, y_train, y_test = train_test_split(X, y, test_size=0.2, random_state=42)
  model.fit(X_train, y_train)
  y_pred = np.exp(model.predict(X_test))
  mae = mean_absolute_error(np.exp(y_test), y_pred)\<close>

  \<open>perm\<close> is the order in which the generator seeded with 42 shuffles the row
  numbers; the first \<open>ceil(0.2 n)\<close> of them (in exact arithmetic) are the test
  rows, the others the training rows, and a split that leaves no training row is
  rejected.
\<close>

definition nrows :: "frame \<Rightarrow> nat" where
  "nrows df = (case df of [] \<Rightarrow> 0 | (c, s) # rest \<Rightarrow> length s)"

definition take_rows :: "nat list \<Rightarrow> 'a list \<Rightarrow> 'a list" where
  "take_rows idx s = map (\<lambda>i. s ! i) idx"

definition train_test_split ::
  "nat list \<Rightarrow> frame \<Rightarrow> series \<Rightarrow> error + frame \<times> frame \<times> series \<times> series" where
  "train_test_split perm X y =
     (let n = nrows X; n_test = nat \<lceil>0.2 * real n\<rceil> in
      if sort perm \<noteq> [0..<n] \<or> length y \<noteq> n \<or> n - n_test = 0 then Inl ValueError
      else
        let test = take n_test perm; train = drop n_test perm in
        Inr (map (\<lambda>(c, s). (c, take_rows train s)) X, map (\<lambda>(c, s). (c, take_rows test s)) X,
             take_rows train y, take_rows test y))"

definition all_finite :: "pyfloat list \<Rightarrow> bool" where
  "all_finite col = list_all (\<lambda>v. case v of Fin x \<Rightarrow> True | _ \<Rightarrow> False) col"

text \<open>\<open>mean_absolute_error\<close> rejects NaN, the infinities, no sample and two
  lengths that differ.\<close>

definition mean_absolute_error :: "pyfloat list \<Rightarrow> pyfloat list \<Rightarrow> error + real" where
  "mean_absolute_error y_true y_pred =
     (if length y_true \<noteq> length y_pred \<or> y_true = [] \<or> \<not> all_finite y_true \<or> \<not> all_finite y_pred
      then Inl ValueError
      else Inr (average (map2 (\<lambda>a b. \<bar>a - b\<bar>) (finite_values y_true) (finite_values y_pred))))"

definition step15 ::
  "(real list list \<Rightarrow> pyfloat list \<Rightarrow> error + 'm) \<Rightarrow> nat list \<Rightarrow> 'm pipeline \<Rightarrow> frame \<Rightarrow> series
     \<Rightarrow> error + 'm pipeline \<times> frame \<times> series" where
  "step15 xgb_fit perm pl X y =
     bind (train_test_split perm X y) (\<lambda>(X_train, X_test, y_train, y_test).
     bind (float_values y_train) (\<lambda>yt.
     bind (model_fit xgb_fit pl X_train yt) (\<lambda>pl1. Inr (pl1, X_test, y_test))))"

definition step16 ::
  "('m \<Rightarrow> real list list \<Rightarrow> real list) \<Rightarrow> 'm pipeline \<Rightarrow> frame \<Rightarrow> series
     \<Rightarrow> error + 'm pipeline \<times> real" where
  "step16 xgb_predict pl X_test y_test =
     bind (model_predict xgb_predict pl X_test) (\<lambda>(pl1, p).
     let y_pred = map (\<lambda>x. np_exp (Fin x)) p in
     bind (float_values y_test) (\<lambda>yt.
     bind (mean_absolute_error (map np_exp yt) y_pred) (\<lambda>mae. Inr (pl1, mae))))"

section \<open>The Field Normalizer, cell by cell\<close>

text \<open>The text that \<open>float\<close> receives for a size, a rent and a price: the chain of
  replacements of steps 3, 4 and 7 on one string.\<close>

definition size_text :: "pystr \<Rightarrow> pystr" where
  "size_text s = py_replace [44] [46] (py_replace [109, 178] [] s)"

definition czynsz_text :: "pystr \<Rightarrow> pystr" where
  "czynsz_text s = py_replace [32] [] (py_replace [44] [46] (py_replace zl [] s))"

definition price_text :: "pystr \<Rightarrow> pystr" where
  "price_text s = py_replace [44] [46] (py_replace [32] [] (py_replace zl [] s))"

text \<open>What steps 3 and 7 make of one cell, and the cells whose price is present
  after step 7.\<close>

definition normalize_size :: "pyobj \<Rightarrow> error + pyobj" where
  "normalize_size x =
     (case x of
        Str s \<Rightarrow> (case py_float (size_text s) of None \<Rightarrow> Inl ValueError | Some v \<Rightarrow> Inr (Flt v))
      | _ \<Rightarrow> Inr (Flt NaN))"

definition normalize_price :: "pyobj \<Rightarrow> error + pyobj" where
  "normalize_price x =
     (case x of
        Str s \<Rightarrow>
          if price_text s = u ''Pricenotavailable'' then Inr (Flt NaN)
          else (case py_float (price_text s) of None \<Rightarrow> Inl ValueError | Some v \<Rightarrow> Inr (Flt v))
      | _ \<Rightarrow> Inr (Flt NaN))"

definition price_present :: "pyobj \<Rightarrow> bool" where
  "price_present x = (case normalize_price x of Inl e \<Rightarrow> False | Inr v \<Rightarrow> \<not> isna v)"

text \<open>
  The rent rule in the words of the specification: the sentinel phrase is
  missing; otherwise the currency suffix and the interior spaces are stripped, the
  decimal comma becomes a decimal point and the rest is parsed as a float. What
  \<open>float\<close> rejects is an error here, as in the code.
\<close>

definition spec_normalize_rent :: "pyobj \<Rightarrow> error + pyobj" where
  "spec_normalize_rent x =
     (case x of
        Str s \<Rightarrow>
          if s = u ''brak informacji'' then Inr (Flt NaN)
          else (case py_float (py_replace [44] [46] (py_replace [32] [] (py_replace zl [] s))) of
                  None \<Rightarrow> Inl ValueError
                | Some v \<Rightarrow> Inr (Flt v))
      | _ \<Rightarrow> Inr (Flt NaN))"

section \<open>The Outlier Filter in the words of the specification\<close>

text \<open>
  The quartiles are taken over the values of the column that are present, the
  fence is \<open>Q1 - 1.5 IQR\<close> and \<open>Q3 + 1.5 IQR\<close>, and a row is retained when its
  value is present and strictly inside the fence.
\<close>

definition present :: "pyfloat list \<Rightarrow> pyfloat list" where
  "present vs = filter (\<lambda>v. v \<noteq> NaN) vs"

definition spec_fence :: "pyfloat list \<Rightarrow> pyfloat \<times> pyfloat" where
  "spec_fence vs =
     (let Q1 = quantile (present vs) 0.25;
          Q3 = quantile (present vs) 0.75;
          IQR = fsub Q3 Q1
      in (fsub Q1 (fmul (Fin 1.5) IQR), fadd Q3 (fmul (Fin 1.5) IQR)))"

definition spec_retained :: "pyfloat list \<Rightarrow> pyfloat \<Rightarrow> bool" where
  "spec_retained vs v \<longleftrightarrow> v \<noteq> NaN \<and> flt (fst (spec_fence vs)) v \<and> flt v (snd (spec_fence vs))"

section \<open>The Amenity Extractor in the words of the specification\<close>

text \<open>The phrase occurs in the field as a substring, case ignored.\<close>

fun spec_contains_ignorecase :: "pystr \<Rightarrow> pystr \<Rightarrow> bool" where
  "spec_contains_ignorecase phrase [] = (phrase = [])"
| "spec_contains_ignorecase phrase (c # cs) =
     (starts_with (map unicode_tolower (c # cs)) (map unicode_tolower phrase) \<or>
      spec_contains_ignorecase phrase cs)"

section \<open>The schema of the frame\<close>

text \<open>The column names of the frame are distinct and the rent indicator of step 5 is
  among them.\<close>

definition rent_flagged :: "frame \<Rightarrow> bool" where
  "rent_flagged df \<longleftrightarrow> distinct (columns df) \<and> u ''has_czynsz'' \<in> set (columns df)"

section \<open>The inputs of the examples\<close>

text \<open>The location \<open>Mokotow, Srodmiescie, Warszawa, mazowieckie\<close> in its Polish
  spelling (U+00F3, U+015A, U+015B).\<close>

definition srodmiescie :: pystr where
  "srodmiescie = [346] @ u ''r'' @ [243] @ u ''dmie'' @ [347] @ u ''cie''"

definition mokotow_location :: pystr where
  "mokotow_location =
     u ''Mokot'' @ [243] @ u ''w, '' @ srodmiescie @ u '', Warszawa, mazowieckie''"

text \<open>A CSV file of two listings, and the frame that steps 3 to 11 make of it.\<close>

definition listings :: frame where
  "listings =
     [(u ''title'', [Str (u ''A''), Str (u ''B'')]),
      (u ''size'', [Str (u ''0 m'' @ [178]), Str (u ''10 m'' @ [178])]),
      (u ''price'', [Str (u ''-1'' @ zl), Str (u ''1'' @ zl)]),
      (u ''Czynsz'', [Str (u ''brak informacji''), Str (u ''500'' @ zl)]),
      (u ''location'', [Str (u ''Wola, Warszawa, mazowieckie''), Str (u ''Warszawa'')]),
      (info, [Flt NaN, Str (u ''Balkon'')])]"

definition prepared :: frame where
  "prepared =
     [(u ''title'', [Str (u ''A''), Str (u ''B'')]),
      (u ''size'', [Flt (Fin 0), Flt (Fin 10)]),
      (u ''price'', [Flt (Fin (- 1)), Flt (Fin 1)]),
      (u ''Czynsz'', [Flt NaN, Flt (Fin 500)]),
      (u ''has_czynsz'', [Intg 1, Intg 0]),
      (u ''city'', [Str (u ''Wola''), Flt NaN]),
      (u ''neighborhood'', [Str (u ''Warszawa''), Flt NaN]),
      (u ''region'', [Str (u ''mazowieckie''), Str (u ''Warszawa'')]),
      (u ''price_per_sqm'', [Flt NInf, Flt (Fin 0.1)]),
      (u ''has_balkon'', [Intg 0, Intg 1]),
      (u ''has_taras'', [Intg 0, Intg 0]),
      (u ''has_gara'' @ [380] @ u ''_miejsce_parkingowe'', [Intg 0, Intg 0]),
      (u ''has_piwnica'', [Intg 0, Intg 0]),
      (u ''has_oddzielna_kuchnia'', [Intg 0, Intg 0]),
      (u ''has_ogr'' @ [243] @ u ''dek'', [Intg 0, Intg 0]),
      (u ''has_pom._u'' @ [380] @ u ''ytkowe'', [Intg 0, Intg 0]),
      (u ''log_price'', [Flt NaN, Flt (Fin 0)])]"

text \<open>An amenities text with a comma where the phrase \<open>pom. uzytkowe\<close> has its
  dot.\<close>

definition pom_field :: pystr where
  "pom_field = u ''pom, u'' @ [380] @ u ''ytkowe''"

text \<open>A frame of six sales, already numeric, with a price and a size far from the
  others and one price missing.\<close>

definition sales :: frame where
  "sales =
     [(u ''price'', [Flt (Fin 1), Flt (Fin 2), Flt (Fin 3), Flt (Fin 4), Flt (Fin 100), Flt NaN]),
      (u ''size'', [Flt (Fin 10), Flt (Fin 20), Flt (Fin 30), Flt (Fin 1000), Flt (Fin 50),
                    Flt (Fin 60)])]"

definition sale_prices :: "pyfloat list" where
  "sale_prices = [Fin 1, Fin 2, Fin 3, Fin 4, Fin 100, NaN]"

definition sale_sizes :: "pyfloat list" where
  "sale_sizes = [Fin 10, Fin 20, Fin 30, Fin 1000, Fin 50, Fin 60]"

text \<open>A fitted pipeline whose only feature is the size.\<close>

definition size_only :: "unit pipeline" where
  "size_only =
     \<lparr>pipeline_preprocessor =
        \<lparr>num_features = [u ''size''], cat_features = [],
          fitted = Some \<lparr>num_stats = [Some \<lparr>imputer_statistic = 50, scaler_mean = 50,
                                               scaler_scale = 10\<rparr>],
                         categories = []\<rparr>\<rparr>,
      regressor = Some (), fit_calls = 1\<rparr>"

text \<open>The second of the two listings after steps 3 to 11, and the statistics that
  the numeric branch of the pipeline fits on it.\<close>

definition second_listing :: frame where
  "second_listing = select_rows [False, True] prepared"

definition fitted_second :: "numeric_stats option list" where
  "fitted_second =
     map (\<lambda>v. Some \<lparr>imputer_statistic = v, scaler_mean = v, scaler_scale = 1\<rparr>)
       [10, 500, 0, 0.1, 0, 1, 0, 0, 0, 0, 0, 0]"

text \<open>A pipeline with one numeric and one categorical feature, before and after it
  is fitted on the first of two flats, and the two flats.\<close>

definition small_model :: "unit pipeline" where
  "small_model =
     \<lparr>pipeline_preprocessor =
        \<lparr>num_features = [u ''size''], cat_features = [u ''Rynek''], fitted = None\<rparr>,
      regressor = None, fit_calls = 0\<rparr>"

definition small_fitted :: "unit pipeline" where
  "small_fitted =
     \<lparr>pipeline_preprocessor =
        \<lparr>num_features = [u ''size''], cat_features = [u ''Rynek''],
          fitted = Some \<lparr>num_stats = [Some \<lparr>imputer_statistic = 50, scaler_mean = 50,
                                               scaler_scale = 1\<rparr>],
                         categories = [[u ''pierwotny'']]\<rparr>\<rparr>,
      regressor = Some (), fit_calls = 1\<rparr>"

definition two_flats :: frame where
  "two_flats =
     [(u ''size'', [Flt (Fin 50), Flt (Fin 60)]),
      (u ''Rynek'', [Str (u ''pierwotny''), Str (u ''wt'' @ [243] @ u ''rny'')])]"

definition second_flat :: frame where
  "second_flat = [(u ''size'', [Flt (Fin 60)]), (u ''Rynek'', [Str (u ''wt'' @ [243] @ u ''rny'')])]"

section \<open>Evaluation\<close>

lemmas float_defs = py_float_def strip_def float_space_def is_digit_def digits_val_def
  ascii_lower_def parse_sign_def parse_exponent_def parse_number_def u_def Let_def

lemmas frame_eval = getitem_def setitem_def dropna_def select_rows_def mask_series_def isna_def
  drop_columns_def columns_def

lemmas frame_defs = frame_eval bind_def

lemmas series_defs = str_replace_def str_accessor_def str_ok_def is_str_def str_cell_def
  series_replace_def py_replace_def to_float_def zl_def

lemmas regex_defs = extract_cell_def lit_match_def unicode_isalnum_def unicode_isspace_def
  unicode_tolower_def unicode_toupper_def unicode_iscased_def ignorecase_fixes_def u_def

section \<open>The Location Decomposer on the example\<close>

lemma city_mokotow: "city (Str mokotow_location) = Str srodmiescie"
  by (simp add: city_def city_pattern_def mokotow_location_def srodmiescie_def regex_defs)

lemma neighborhood_mokotow: "neighborhood (Str mokotow_location) = Str (u ''Warszawa'')"
  by (simp add: neighborhood_def neighborhood_pattern_def mokotow_location_def srodmiescie_def
      regex_defs)

lemma region_mokotow: "region (Str mokotow_location) = Str (u ''mazowieckie'')"
  by (simp add: region_def region_pattern_def mokotow_location_def srodmiescie_def regex_defs)

lemma srodmiescie_not_warszawa: "srodmiescie \<noteq> u ''Warszawa''"
  by (simp add: srodmiescie_def u_def)

text \<open>
  C1, as the code has it: on \<open>Mokotow, Srodmiescie, Warszawa, mazowieckie\<close> the
  Location Decomposer gives the token before the last two commas, \<open>Srodmiescie\<close>,
  as city, the token before the final comma, \<open>Warszawa\<close>, as neighborhood, and the
  trailing token \<open>mazowieckie\<close> as region.
\<close>

theorem location_decomposer_example:
  "step6 [(u ''location'', [Str mokotow_location])] =
     Inr [(u ''city'', [Str srodmiescie]), (u ''neighborhood'', [Str (u ''Warszawa'')]),
          (u ''region'', [Str (u ''mazowieckie'')])]"
  by (simp add: step6_def frame_defs str_extract_def str_accessor_def str_ok_def is_str_def
      city_mokotow neighborhood_mokotow region_mokotow)
    (simp add: u_def)

text \<open>
  C1, as the specification states it, fails: the city extracted from the example
  is not \<open>Warszawa\<close> and the neighborhood is not \<open>Srodmiescie\<close>.
\<close>

theorem location_decomposer_example_counterexample:
  "\<not> (city (Str mokotow_location) = Str (u ''Warszawa'') \<and>
      neighborhood (Str mokotow_location) = Str srodmiescie \<and>
      region (Str mokotow_location) = Str (u ''mazowieckie''))"
  by (simp add: city_mokotow srodmiescie_not_warszawa)

section \<open>The cleaning chains, cell by cell\<close>

lemma bind_Inr [simp]: "bind (Inr v) f = f v"
  by (simp add: bind_def)

lemma bind_Inl [simp]: "bind (Inl e) f = Inl e"
  by (simp add: bind_def)

lemma replace_char:
  "replace_nonempty [c] new s = concat (map (\<lambda>x. if x = c then new else [x]) s)"
  by (induction s) simp_all

lemma py_replace_char:
  "py_replace [c] new s = concat (map (\<lambda>x. if x = c then new else [x]) s)"
  by (simp add: py_replace_def replace_char)

lemma comma_space_commute:
  "py_replace [32] [] (py_replace [44] [46] t) = py_replace [44] [46] (py_replace [32] [] t)"
  by (induction t) (simp_all add: py_replace_char)

lemma astype_float_map:
  "astype_float (map f col) = sequence (map (\<lambda>x. bind (to_float (f x)) (\<lambda>v. Inr (Flt v))) col)"
  by (induction col) (simp_all add: bind_def split: sum.splits)

lemma sequence_cong:
  "(\<And>x. x \<in> set xs \<Longrightarrow> f x = g x) \<Longrightarrow> sequence (map f xs) = sequence (map g xs)"
  by (induction xs) simp_all

lemma is_str_cell: "is_str (str_cell f x) = is_str x"
  by (simp add: is_str_def str_cell_def split: pyobj.splits)

lemma str_ok_cells: "str_ok (map (str_cell f) col) = str_ok col"
  by (simp add: str_ok_def list_ex_iff is_str_cell)

lemma str_replace_cells:
  "str_replace old new col =
     (if str_ok col then Inr (map (str_cell (py_replace old new)) col) else Inl AttributeError)"
  by (simp add: str_replace_def str_accessor_def)

lemma clean_czynsz_cells:
  "clean_czynsz col =
     (if str_ok (series_replace (Str (u ''brak informacji'')) (Flt NaN) col)
      then sequence (map spec_normalize_rent col) else Inl AttributeError)"
proof (cases "str_ok (series_replace (Str (u ''brak informacji'')) (Flt NaN) col)")
  case True
  then have "clean_czynsz col =
      astype_float (map (str_cell (py_replace [32] []))
        (map (str_cell (py_replace [44] [46]))
          (map (str_cell (py_replace zl []))
            (series_replace (Str (u ''brak informacji'')) (Flt NaN) col))))"
    by (simp add: clean_czynsz_def str_replace_cells str_ok_cells del: map_map)
  also have "\<dots> = sequence (map spec_normalize_rent col)"
    unfolding series_replace_def map_map astype_float_map
    by (rule sequence_cong)
      (simp add: spec_normalize_rent_def to_float_def comma_space_commute str_cell_def
        split: pyobj.splits option.splits)
  finally show ?thesis using True by simp
next
  case False
  then show ?thesis by (simp add: clean_czynsz_def str_replace_cells)
qed

lemma clean_size_cells:
  "clean_size col = (if str_ok col then sequence (map normalize_size col) else Inl AttributeError)"
proof (cases "str_ok col")
  case True
  then have "clean_size col =
      astype_float (map (str_cell (py_replace [44] [46])) (map (str_cell (py_replace [109, 178] [])) col))"
    by (simp add: clean_size_def str_replace_cells str_ok_cells del: map_map)
  also have "\<dots> = sequence (map normalize_size col)"
    unfolding map_map astype_float_map
    by (rule sequence_cong)
      (simp add: normalize_size_def to_float_def str_cell_def size_text_def
        split: pyobj.splits option.splits)
  finally show ?thesis using True by simp
next
  case False
  then show ?thesis by (simp add: clean_size_def str_replace_cells)
qed

lemma clean_price_cells:
  "clean_price col = (if str_ok col then sequence (map normalize_price col) else Inl AttributeError)"
proof (cases "str_ok col")
  case True
  then have "clean_price col =
      astype_float (series_replace (Str (u ''Pricenotavailable'')) (Flt NaN)
        (map (str_cell (py_replace [44] [46]))
          (map (str_cell (py_replace [32] [])) (map (str_cell (py_replace zl [])) col))))"
    by (simp add: clean_price_def str_replace_cells str_ok_cells del: map_map)
  also have "\<dots> = sequence (map normalize_price col)"
    unfolding series_replace_def map_map astype_float_map
    by (rule sequence_cong)
      (simp add: normalize_price_def to_float_def str_cell_def price_text_def
        split: pyobj.splits option.splits)
  finally show ?thesis using True by simp
next
  case False
  then show ?thesis by (simp add: clean_price_def str_replace_cells)
qed

lemma text_cell_ok:
  assumes "Str s \<in> set col"
  shows "str_ok col"
proof -
  have "is_str (Str s)" by (simp add: is_str_def)
  with assms have "list_ex is_str col" unfolding list_ex_iff by blast
  then show ?thesis by (simp add: str_ok_def)
qed

lemma rent_text_cell_ok:
  "Str s \<in> set col \<Longrightarrow> s \<noteq> u ''brak informacji'' \<Longrightarrow>
     str_ok (series_replace (Str (u ''brak informacji'')) (Flt NaN) col)"
  by (rule text_cell_ok [of s]) (auto simp: series_replace_def)

lemma sequence_Inr:
  "sequence (map f xs) = Inr vs \<Longrightarrow>
     length vs = length xs \<and> (\<forall>i<length xs. f (xs ! i) = Inr (vs ! i))"
proof (induction xs arbitrary: vs)
  case Nil
  then show ?case by simp
next
  case (Cons x xs)
  from Cons.prems obtain v ws where v: "f x = Inr v" and ws: "sequence (map f xs) = Inr ws"
    and vs: "vs = v # ws"
    by (auto simp: bind_def split: sum.splits)
  from Cons.IH [OF ws] v vs show ?case
    by (auto simp: nth_Cons split: nat.splits)
qed

lemma sequence_Inl:
  "(\<exists>e. sequence (map f xs) = Inl e) \<longleftrightarrow> (\<exists>x\<in>set xs. \<exists>e. f x = Inl e)"
  by (induction xs) (auto simp: bind_def split: sum.splits)

lemma sequence_error:
  "sequence (map f xs) = Inl e \<Longrightarrow> \<exists>x\<in>set xs. f x = Inl e"
  by (induction xs) (auto simp: bind_def split: sum.splits)

lemma sequence_total:
  "\<forall>x\<in>set xs. \<exists>v. f x = Inr v \<Longrightarrow> \<exists>vs. sequence (map f xs) = Inr vs"
  by (induction xs) (auto simp: bind_def)

section \<open>The Field Normalizer on size and rent\<close>

lemma rent_example: "clean_czynsz [Str (u ''1 234,50'' @ zl)] = Inr [Flt (Fin 1234.5)]"
  by (simp add: clean_czynsz_def series_defs float_defs)

lemma rent_sentinel: "spec_normalize_rent (Str (u ''brak informacji'')) = Inr (Flt NaN)"
  by (simp add: spec_normalize_rent_def)

lemma rent_unparseable: "clean_czynsz [Str (u ''do uzgodnienia'')] = Inl ValueError"
  by (simp add: clean_czynsz_def series_defs float_defs)

text \<open>
  C6, as the code has it: a rent column that still holds text once the sentinel
  phrase is replaced is normalized cell by cell as the specification says (the
  sentinel phrase is missing, the currency suffix and the spaces are stripped, the
  decimal comma becomes a point, the rest is parsed as a float), and
  \<open>1 234,50 zl\<close> becomes exactly 1234.50; text that is still unparseable raises
  \<open>ValueError\<close> and stops the conversion of the column, and a column left without
  any text is refused with \<open>AttributeError\<close>.
\<close>

theorem rent_normalizer:
  "clean_czynsz col =
     (if str_ok (series_replace (Str (u ''brak informacji'')) (Flt NaN) col)
      then sequence (map spec_normalize_rent col) else Inl AttributeError) \<and>
   spec_normalize_rent (Str (u ''brak informacji'')) = Inr (Flt NaN) \<and>
   clean_czynsz [Str (u ''1 234,50'' @ zl)] = Inr [Flt (Fin 1234.5)] \<and>
   clean_czynsz [Str (u ''do uzgodnienia'')] = Inl ValueError"
  using clean_czynsz_cells [of col] rent_sentinel rent_example rent_unparseable
  by simp

text \<open>
  C6, as the specification states it, fails in its last part: the unparseable rent
  \<open>do uzgodnienia\<close> does not yield a missing value, the conversion has no result.
\<close>

theorem rent_normalizer_counterexample:
  "\<not> (\<exists>v. clean_czynsz [Str (u ''do uzgodnienia'')] = Inr v)"
  by (simp add: rent_unparseable)

lemma normalize_size_error: "normalize_size x = Inl e \<Longrightarrow> e = ValueError"
  by (auto simp: normalize_size_def split: pyobj.splits option.splits)

lemma normalize_rent_error: "spec_normalize_rent x = Inl e \<Longrightarrow> e = ValueError"
  by (auto simp: spec_normalize_rent_def split: pyobj.splits option.splits if_splits)

lemma czynsz_text_spec:
  "py_replace [44] [46] (py_replace [32] [] (py_replace zl [] s)) = czynsz_text s"
  by (simp add: czynsz_text_def comma_space_commute)

lemma size_failure:
  assumes "Str s \<in> set col" "py_float (size_text s) = None"
  shows "clean_size col = Inl ValueError"
proof -
  from assms have "\<exists>x\<in>set col. \<exists>e. normalize_size x = Inl e"
    by (intro bexI [of _ "Str s"]) (simp_all add: normalize_size_def)
  then obtain e where e: "sequence (map normalize_size col) = Inl e"
    using sequence_Inl [of normalize_size col] by blast
  from sequence_error [OF e] normalize_size_error have "e = ValueError" by blast
  with e text_cell_ok [OF assms(1)] show ?thesis by (simp add: clean_size_cells)
qed

lemma rent_failure:
  assumes "Str s \<in> set col" "s \<noteq> u ''brak informacji''" "py_float (czynsz_text s) = None"
  shows "clean_czynsz col = Inl ValueError"
proof -
  from assms have "\<exists>x\<in>set col. \<exists>e. spec_normalize_rent x = Inl e"
    by (intro bexI [of _ "Str s"]) (simp_all add: spec_normalize_rent_def czynsz_text_spec)
  then obtain e where e: "sequence (map spec_normalize_rent col) = Inl e"
    using sequence_Inl [of spec_normalize_rent col] by blast
  from sequence_error [OF e] normalize_rent_error have "e = ValueError" by blast
  with e rent_text_cell_ok [OF assms(1,2)] show ?thesis by (simp add: clean_czynsz_cells)
qed

lemma size_success:
  assumes "str_ok col" "\<not> (\<exists>s. Str s \<in> set col \<and> py_float (size_text s) = None)"
  shows "\<exists>v. clean_size col = Inr v \<and> length v = length col \<and>
           (\<forall>i<length col. col ! i = Flt NaN \<longrightarrow> v ! i = Flt NaN)"
proof -
  from assms(2) have "\<forall>x\<in>set col. \<exists>v. normalize_size x = Inr v"
    by (auto simp: normalize_size_def split: pyobj.splits option.splits)
  then obtain v where v: "sequence (map normalize_size col) = Inr v"
    using sequence_total by blast
  from sequence_Inr [OF v] have "length v = length col"
    and "\<forall>i<length col. normalize_size (col ! i) = Inr (v ! i)" by simp_all
  then have "\<forall>i<length col. col ! i = Flt NaN \<longrightarrow> v ! i = Flt NaN"
    by (auto simp: normalize_size_def)
  with v \<open>length v = length col\<close> assms(1) show ?thesis by (simp add: clean_size_cells)
qed

lemma rent_success:
  assumes "str_ok (series_replace (Str (u ''brak informacji'')) (Flt NaN) col)"
    and "\<not> (\<exists>s. Str s \<in> set col \<and> s \<noteq> u ''brak informacji'' \<and> py_float (czynsz_text s) = None)"
  shows "\<exists>v. clean_czynsz col = Inr v \<and> length v = length col \<and>
           (\<forall>i<length col. col ! i = Flt NaN \<or> col ! i = Str (u ''brak informacji'')
              \<longrightarrow> v ! i = Flt NaN)"
proof -
  from assms(2) have "\<forall>x\<in>set col. \<exists>v. spec_normalize_rent x = Inr v"
    by (auto simp: spec_normalize_rent_def czynsz_text_spec split: pyobj.splits option.splits)
  then obtain v where v: "sequence (map spec_normalize_rent col) = Inr v"
    using sequence_total by blast
  from sequence_Inr [OF v] have "length v = length col"
    and "\<forall>i<length col. spec_normalize_rent (col ! i) = Inr (v ! i)" by simp_all
  then have "\<forall>i<length col. col ! i = Flt NaN \<or> col ! i = Str (u ''brak informacji'')
      \<longrightarrow> v ! i = Flt NaN"
    by (auto simp: spec_normalize_rent_def)
  with v \<open>length v = length col\<close> assms(1) show ?thesis by (simp add: clean_czynsz_cells)
qed

text \<open>
  C4, as the code has it: the conversion of the size column, and of the rent
  column, raises \<open>ValueError\<close> as soon as one text cell (other than the rent
  sentinel) is rejected by \<open>float\<close> after the replacements; a column that holds
  text, all of it accepted, keeps every row, and a cell that was missing, or the
  rent sentinel, is missing afterwards; a column that has rows and no text (for the
  rent, once the sentinel is replaced) is refused with \<open>AttributeError\<close>.
\<close>

theorem size_rent_parse_failure:
  "((\<exists>s. Str s \<in> set col \<and> py_float (size_text s) = None) \<longrightarrow> clean_size col = Inl ValueError) \<and>
   ((\<exists>s. Str s \<in> set col \<and> s \<noteq> u ''brak informacji'' \<and> py_float (czynsz_text s) = None)
      \<longrightarrow> clean_czynsz col = Inl ValueError) \<and>
   (str_ok col \<and> \<not> (\<exists>s. Str s \<in> set col \<and> py_float (size_text s) = None) \<longrightarrow>
      (\<exists>v. clean_size col = Inr v \<and> length v = length col \<and>
           (\<forall>i<length col. col ! i = Flt NaN \<longrightarrow> v ! i = Flt NaN))) \<and>
   (str_ok (series_replace (Str (u ''brak informacji'')) (Flt NaN) col) \<and>
    \<not> (\<exists>s. Str s \<in> set col \<and> s \<noteq> u ''brak informacji'' \<and> py_float (czynsz_text s) = None) \<longrightarrow>
      (\<exists>v. clean_czynsz col = Inr v \<and> length v = length col \<and>
           (\<forall>i<length col. col ! i = Flt NaN \<or> col ! i = Str (u ''brak informacji'')
              \<longrightarrow> v ! i = Flt NaN))) \<and>
   (\<not> str_ok col \<longrightarrow> clean_size col = Inl AttributeError) \<and>
   (\<not> str_ok (series_replace (Str (u ''brak informacji'')) (Flt NaN) col) \<longrightarrow>
      clean_czynsz col = Inl AttributeError)"
  using size_failure [of _ col] rent_failure [of _ col] size_success [of col] rent_success [of col]
    clean_size_cells [of col] clean_czynsz_cells [of col]
  by (intro conjI impI) (blast, blast, blast, blast, simp, simp)

lemma size_text_bad: "py_float (size_text (u ''ok. 50'' @ [32, 109, 178])) = None"
  by (simp add: size_text_def py_replace_def float_defs)

lemma czynsz_text_bad: "py_float (czynsz_text (u ''500'' @ zl @ u ''/mies.'')) = None"
  by (simp add: czynsz_text_def py_replace_def zl_def float_defs)

lemma size_text_good: "py_float (size_text (u ''54,5'' @ [32, 109, 178])) = Some (Fin 54.5)"
  by (simp add: size_text_def py_replace_def float_defs)

lemma czynsz_text_good: "py_float (czynsz_text (u ''500'' @ zl)) = Some (Fin 500)"
  by (simp add: czynsz_text_def py_replace_def zl_def float_defs)

text \<open>
  C4, as the specification states it, fails: the malformed size \<open>ok. 50 m2\<close> and
  the malformed rent \<open>500 zl/mies.\<close> are fatal.
\<close>

theorem size_rent_parse_failure_counterexample:
  "clean_size [Str (u ''ok. 50'' @ [32, 109, 178])] = Inl ValueError \<and>
   clean_czynsz [Str (u ''500'' @ zl @ u ''/mies.'')] = Inl ValueError"
proof -
  have "Str (u ''500'' @ zl @ u ''/mies.'') \<in> set [Str (u ''500'' @ zl @ u ''/mies.'')]"
    and "u ''500'' @ zl @ u ''/mies.'' \<noteq> u ''brak informacji''"
    by (simp_all add: u_def zl_def)
  from rent_failure [OF this czynsz_text_bad] size_failure [OF _ size_text_bad] show ?thesis
    by simp
qed

text \<open>The theorem for C4 at five concrete columns: two that fail, two that are
  converted and one whose rents are all the sentinel.\<close>

theorem size_rent_parse_failure_witness:
  "clean_size [Flt NaN, Str (u ''ok. 50'' @ [32, 109, 178])] = Inl ValueError \<and>
   clean_czynsz [Str (u ''500'' @ zl @ u ''/mies.''), Flt NaN] = Inl ValueError \<and>
   (\<exists>v. clean_size [Str (u ''54,5'' @ [32, 109, 178]), Flt NaN] = Inr v \<and> length v = 2 \<and>
        v ! 1 = Flt NaN) \<and>
   (\<exists>v. clean_czynsz [Str (u ''brak informacji''), Flt NaN, Str (u ''500'' @ zl)] = Inr v \<and>
        length v = 3 \<and> v ! 0 = Flt NaN \<and> v ! 1 = Flt NaN) \<and>
   clean_size [Flt NaN] = Inl AttributeError \<and>
   clean_czynsz [Str (u ''brak informacji''), Str (u ''brak informacji'')] = Inl AttributeError"
proof -
  have a: "\<exists>s. Str s \<in> set [Flt NaN, Str (u ''ok. 50'' @ [32, 109, 178])] \<and>
      py_float (size_text s) = None"
    using size_text_bad by auto
  have b: "\<exists>s. Str s \<in> set [Str (u ''500'' @ zl @ u ''/mies.''), Flt NaN] \<and>
      s \<noteq> u ''brak informacji'' \<and> py_float (czynsz_text s) = None"
    using czynsz_text_bad by (auto simp: u_def zl_def)
  have c: "str_ok [Str (u ''54,5'' @ [32, 109, 178]), Flt NaN] \<and>
      \<not> (\<exists>s. Str s \<in> set [Str (u ''54,5'' @ [32, 109, 178]), Flt NaN] \<and>
      py_float (size_text s) = None)"
    using size_text_good by (auto simp: str_ok_def is_str_def)
  have d: "str_ok (series_replace (Str (u ''brak informacji'')) (Flt NaN)
        [Str (u ''brak informacji''), Flt NaN, Str (u ''500'' @ zl)]) \<and>
      \<not> (\<exists>s. Str s \<in> set [Str (u ''brak informacji''), Flt NaN, Str (u ''500'' @ zl)] \<and>
      s \<noteq> u ''brak informacji'' \<and> py_float (czynsz_text s) = None)"
    using czynsz_text_good by (auto simp: str_ok_def is_str_def series_replace_def u_def zl_def)
  have e: "\<not> str_ok [Flt NaN]"
    by (simp add: str_ok_def is_str_def)
  have f: "\<not> str_ok (series_replace (Str (u ''brak informacji'')) (Flt NaN)
      [Str (u ''brak informacji''), Str (u ''brak informacji'')])"
    by (simp add: str_ok_def is_str_def series_replace_def)
  from a size_rent_parse_failure [of "[Flt NaN, Str (u ''ok. 50'' @ [32, 109, 178])]"]
  have 1: "clean_size [Flt NaN, Str (u ''ok. 50'' @ [32, 109, 178])] = Inl ValueError"
    by blast
  from b size_rent_parse_failure [of "[Str (u ''500'' @ zl @ u ''/mies.''), Flt NaN]"]
  have 2: "clean_czynsz [Str (u ''500'' @ zl @ u ''/mies.''), Flt NaN] = Inl ValueError"
    by blast
  from c size_rent_parse_failure [of "[Str (u ''54,5'' @ [32, 109, 178]), Flt NaN]"]
  obtain v where v: "clean_size [Str (u ''54,5'' @ [32, 109, 178]), Flt NaN] = Inr v"
    "length v = length [Str (u ''54,5'' @ [32, 109, 178]), Flt NaN]"
    "\<forall>i<length [Str (u ''54,5'' @ [32, 109, 178]), Flt NaN].
       [Str (u ''54,5'' @ [32, 109, 178]), Flt NaN] ! i = Flt NaN \<longrightarrow> v ! i = Flt NaN"
    by blast
  from v(3) [rule_format, of 1] have "v ! 1 = Flt NaN" by simp
  with v(1,2)
  have 3: "\<exists>v. clean_size [Str (u ''54,5'' @ [32, 109, 178]), Flt NaN] = Inr v \<and> length v = 2 \<and>
        v ! 1 = Flt NaN"
    by simp
  from d size_rent_parse_failure [of "[Str (u ''brak informacji''), Flt NaN, Str (u ''500'' @ zl)]"]
  obtain w where w: "clean_czynsz [Str (u ''brak informacji''), Flt NaN, Str (u ''500'' @ zl)] = Inr w"
    "length w = length [Str (u ''brak informacji''), Flt NaN, Str (u ''500'' @ zl)]"
    "\<forall>i<length [Str (u ''brak informacji''), Flt NaN, Str (u ''500'' @ zl)].
       [Str (u ''brak informacji''), Flt NaN, Str (u ''500'' @ zl)] ! i = Flt NaN \<or>
       [Str (u ''brak informacji''), Flt NaN, Str (u ''500'' @ zl)] ! i = Str (u ''brak informacji'')
       \<longrightarrow> w ! i = Flt NaN"
    by blast
  from w(3) [rule_format, of 0] w(3) [rule_format, of 1]
  have "w ! 0 = Flt NaN" "w ! 1 = Flt NaN" by simp_all
  with w(1,2)
  have 4: "\<exists>v. clean_czynsz [Str (u ''brak informacji''), Flt NaN, Str (u ''500'' @ zl)] = Inr v \<and>
        length v = 3 \<and> v ! 0 = Flt NaN \<and> v ! 1 = Flt NaN"
    by simp
  from e size_rent_parse_failure [of "[Flt NaN]"]
  have 5: "clean_size [Flt NaN] = Inl AttributeError"
    by blast
  from f size_rent_parse_failure [of "[Str (u ''brak informacji''), Str (u ''brak informacji'')]"]
  have 6: "clean_czynsz [Str (u ''brak informacji''), Str (u ''brak informacji'')] =
      Inl AttributeError"
    by blast
  from 1 2 3 4 5 6 show ?thesis by blast
qed

section \<open>The price-cleaning stage\<close>

lemma getitem_setitem: "getitem (setitem df c v) c = Inr v"
  by (simp add: getitem_def setitem_def update_conv')

lemma mask_series_filter: "mask_series (map P xs) xs = filter P xs"
  by (induction xs) (simp_all add: mask_series_def)

lemma getitem_select_rows:
  "getitem df c = Inr s \<Longrightarrow> getitem (select_rows keep df) c = Inr (mask_series keep s)"
proof -
  have "map_of (map (\<lambda>(c, s). (c, mask_series keep s)) df) c =
      map_option (mask_series keep) (map_of df c)"
    by (induction df) auto
  then show "getitem df c = Inr s \<Longrightarrow> getitem (select_rows keep df) c = Inr (mask_series keep s)"
    by (simp add: getitem_def select_rows_def split: option.splits)
qed

lemma step7_eq:
  assumes "getitem df (u ''price'') = Inr col"
  shows "step7 df =
     (if str_ok col
      then bind (sequence (map normalize_price col)) (\<lambda>v.
             Inr (select_rows (map (\<lambda>x. \<not> isna x) v) (setitem df (u ''price'') v)))
      else Inl AttributeError)"
  using assms by (simp add: step7_def dropna_def getitem_setitem clean_price_cells)

lemma normalized_prices:
  "sequence (map normalize_price col) = Inr v \<Longrightarrow>
     map (\<lambda>x. \<not> isna x) v = map price_present col \<and> (\<forall>x\<in>set v. \<exists>w. x = Flt w)"
proof (induction col arbitrary: v)
  case Nil
  then show ?case by simp
next
  case (Cons x xs)
  from Cons.prems obtain y ys where y: "normalize_price x = Inr y"
    and ys: "sequence (map normalize_price xs) = Inr ys" and v: "v = y # ys"
    by (auto simp: bind_def split: sum.splits)
  from y have "\<exists>w. y = Flt w"
    by (auto simp: normalize_price_def split: pyobj.splits option.splits if_splits)
  with Cons.IH [OF ys] y v show ?case
    by (auto simp: price_present_def)
qed

lemma normalize_price_error: "normalize_price x = Inl e \<Longrightarrow> e = ValueError"
  by (auto simp: normalize_price_def split: pyobj.splits option.splits if_splits)

text \<open>
  C2, as the code has it: the price-cleaning stage keeps exactly the rows whose
  price text, the sentinel apart, parses to a float other than NaN, so that every
  surviving row has a price that is present; a price text that \<open>float\<close> rejects
  raises \<open>ValueError\<close> and stops the run, and so does, with \<open>AttributeError\<close>,
  a price column that has rows and no text. Nothing requires the price or the size
  to be positive.
\<close>

theorem price_cleaning:
  assumes "getitem df (u ''price'') = Inr col"
  shows "((\<exists>s. Str s \<in> set col \<and> price_text s \<noteq> u ''Pricenotavailable'' \<and>
             py_float (price_text s) = None) \<longrightarrow> step7 df = Inl ValueError) \<and>
         (\<not> str_ok col \<longrightarrow> step7 df = Inl AttributeError) \<and>
         (\<forall>df1. step7 df = Inr df1 \<longrightarrow>
            (\<exists>v. sequence (map normalize_price col) = Inr v \<and>
                 df1 = select_rows (map price_present col) (setitem df (u ''price'') v)) \<and>
            (\<exists>col1. getitem df1 (u ''price'') = Inr col1 \<and>
               (\<forall>x\<in>set col1. \<exists>w. x = Flt w \<and> w \<noteq> NaN)))"
proof (intro conjI impI allI)
  assume "\<exists>s. Str s \<in> set col \<and> price_text s \<noteq> u ''Pricenotavailable'' \<and>
      py_float (price_text s) = None"
  then obtain s where s: "Str s \<in> set col" "price_text s \<noteq> u ''Pricenotavailable''"
    "py_float (price_text s) = None" by blast
  then have "\<exists>x\<in>set col. \<exists>e. normalize_price x = Inl e"
    by (intro bexI [of _ "Str s"]) (simp_all add: normalize_price_def)
  then obtain e where e: "sequence (map normalize_price col) = Inl e"
    using sequence_Inl [of normalize_price col] by blast
  from sequence_error [OF e] normalize_price_error have "e = ValueError" by blast
  with e text_cell_ok [OF s(1)] show "step7 df = Inl ValueError"
    by (simp add: step7_eq [OF assms])
next
  assume "\<not> str_ok col"
  then show "step7 df = Inl AttributeError"
    by (simp add: step7_eq [OF assms])
next
  fix df1
  assume df1: "step7 df = Inr df1"
  then obtain v where v: "sequence (map normalize_price col) = Inr v"
    and eq: "df1 = select_rows (map (\<lambda>x. \<not> isna x) v) (setitem df (u ''price'') v)"
    by (auto simp: step7_eq [OF assms] bind_def split: sum.splits if_splits)
  from normalized_prices [OF v] have m: "map (\<lambda>x. \<not> isna x) v = map price_present col"
    and f: "\<forall>x\<in>set v. \<exists>w. x = Flt w"
    by simp_all
  from v eq m
  show "\<exists>v. sequence (map normalize_price col) = Inr v \<and>
      df1 = select_rows (map price_present col) (setitem df (u ''price'') v)"
    by auto
  have col1: "getitem df1 (u ''price'') = Inr (filter (\<lambda>x. \<not> isna x) v)"
    unfolding eq by (simp add: getitem_select_rows [OF getitem_setitem] mask_series_filter)
  from f have "\<forall>x\<in>set (filter (\<lambda>x. \<not> isna x) v). \<exists>w. x = Flt w \<and> w \<noteq> NaN"
    by (auto simp: isna_def)
  with col1 show "\<exists>col1. getitem df1 (u ''price'') = Inr col1 \<and>
      (\<forall>x\<in>set col1. \<exists>w. x = Flt w \<and> w \<noteq> NaN)"
    by blast
qed

lemma step7_zero:
  "step7 [(u ''price'', [Str (u ''0'' @ zl), Str (u ''Price not available'')])] =
     Inr [(u ''price'', [Flt (Fin 0)])]"
  by (simp add: step7_def clean_price_def frame_defs series_defs float_defs)

lemma step7_abort:
  "step7 [(u ''price'', [Str (u ''Zapytaj o cen'' @ [281])])] = Inl ValueError"
  by (simp add: step7_def clean_price_def frame_defs series_defs float_defs)


lemma bind_weak_cong: "m = n \<Longrightarrow> bind m f = bind n f"
  by simp

lemma prepare_listings: "prepare listings = Inr prepared"
  by (simp add: prepare_def listings_def prepared_def info_def step3_def step4_def step5_def
      step6_def step7_def step8_def step9_def step10_def step11_def clean_size_def
      clean_czynsz_def clean_price_def extract_amenities_def amenities_def amenity_indicator_def
      amenity_column_def compile_phrase_def str_lower_def city_def neighborhood_def region_def
      str_contains_def contains_cell_def str_extract_def city_pattern_def neighborhood_pattern_def
      region_pattern_def
      remove_outliers_def quantile_def sort_floats_def fsub_def fgt_def inf_of_sign_def
      frame_eval series_defs float_defs regex_defs cong: bind_weak_cong)

lemma prepared_price: "getitem prepared (u ''price'') = Inr [Flt (Fin (- 1)), Flt (Fin 1)]"
  by (simp add: prepared_def getitem_def u_def)

lemma prepared_size: "getitem prepared (u ''size'') = Inr [Flt (Fin 0), Flt (Fin 10)]"
  by (simp add: prepared_def getitem_def u_def)

text \<open>
  C2, as the specification states it, fails: the listing priced \<open>-1 zl\<close> with size
  \<open>0 m2\<close> survives all the cleaning and the outlier filter, and the price text
  \<open>Zapytaj o cene\<close> stops the run instead of being dropped.
\<close>

theorem price_cleaning_counterexample:
  "prepare listings = Inr prepared \<and>
   getitem prepared (u ''price'') = Inr [Flt (Fin (- 1)), Flt (Fin 1)] \<and> \<not> fgt (Fin (- 1)) (Fin 0) \<and>
   getitem prepared (u ''size'') = Inr [Flt (Fin 0), Flt (Fin 10)] \<and> \<not> fgt (Fin 0) (Fin 0) \<and>
   step7 [(u ''price'', [Str (u ''Zapytaj o cen'' @ [281])])] = Inl ValueError"
  by (simp add: prepare_listings prepared_price prepared_size step7_abort fgt_def)

lemma present_zero:
  "map price_present [Str (u ''0'' @ zl), Str (u ''Price not available'')] = [True, False]"
  by (simp add: price_present_def normalize_price_def price_text_def py_replace_def zl_def isna_def
      float_defs)

text \<open>The theorem for C2 at a column of a zero price and the sentinel: the
  sentinel row is dropped and the zero price stays.\<close>

theorem price_cleaning_witness:
  "getitem [(u ''price'', [Str (u ''0'' @ zl), Str (u ''Price not available'')])] (u ''price'') =
     Inr [Str (u ''0'' @ zl), Str (u ''Price not available'')] \<and>
   (\<exists>v. sequence (map normalize_price [Str (u ''0'' @ zl), Str (u ''Price not available'')]) = Inr v \<and>
      [(u ''price'', [Flt (Fin 0)])] =
        select_rows [True, False]
          (setitem [(u ''price'', [Str (u ''0'' @ zl), Str (u ''Price not available'')])]
             (u ''price'') v)) \<and>
   (\<exists>col1. getitem [(u ''price'', [Flt (Fin 0)])] (u ''price'') = Inr col1 \<and>
      (\<forall>x\<in>set col1. \<exists>w. x = Flt w \<and> w \<noteq> NaN))"
proof -
  have h: "getitem [(u ''price'', [Str (u ''0'' @ zl), Str (u ''Price not available'')])]
      (u ''price'') = Inr [Str (u ''0'' @ zl), Str (u ''Price not available'')]"
    by (simp add: getitem_def)
  from price_cleaning [OF h] step7_zero h show ?thesis
    unfolding present_zero by blast
qed

section \<open>The Location Decomposer on short locations\<close>

lemma match_here_literals:
  "match_here ic p s opens groups = Some g \<Longrightarrow> \<not> ic \<Longrightarrow>
     count_list p (Lit c) \<le> count_list s c"
proof (induction ic p s opens groups rule: match_here.induct)
  case (5 ic k r s opens groups)
  then show ?case
    by (cases s) (auto split: if_splits option.splits intro: le_SucI)
qed (auto simp: lit_match_def split: list.splits if_splits)

lemma search_literals:
  "search False p s = Some g \<Longrightarrow> count_list p (Lit c) \<le> count_list s c"
proof (induction s)
  case Nil
  then show ?case using match_here_literals [of False p "[]" "[]" "[]" g c] by simp
next
  case (Cons x xs)
  show ?case
  proof (cases "match_here False p (x # xs) [] []")
    case None
    with Cons have "count_list p (Lit c) \<le> count_list xs c" by simp
    then show ?thesis by simp
  next
    case (Some h)
    with Cons.prems have "match_here False p (x # xs) [] [] = Some g" by simp
    from match_here_literals [OF this] show ?thesis by simp
  qed
qed

lemma few_commas_no_match:
  assumes "count_list s 44 < 2" "count_list p (Lit 44) = 2"
  shows "extract_cell p i (Str s) = Flt NaN"
proof (cases "search False p s")
  case None
  then show ?thesis by (simp add: extract_cell_def)
next
  case (Some g)
  from search_literals [OF this, of 44] assms show ?thesis by simp
qed

lemma word_run:
  "list_all (in_class Word) xs \<Longrightarrow>
     match_here ic [Star Word, Close, Eol] xs [b] groups = Some (groups @ [b])"
  by (induction xs) simp_all

lemma region_single_token:
  assumes "s \<noteq> []" "list_all (in_class Word) s"
  shows "region (Str s) = Str s"
proof -
  from assms obtain x xs where s: "s = x # xs" and x: "in_class Word x"
    and xs: "list_all (in_class Word) xs"
    by (cases s) auto
  have "match_here False region_pattern s [] [] = Some [s]"
    using x word_run [OF xs, of False s "[]"] by (simp add: region_pattern_def s)
  then have "search False region_pattern s = Some [s]"
    by (simp add: s)
  then show ?thesis by (simp add: region_def extract_cell_def)
qed


lemma region_warszawa: "region (Str (u ''Warszawa'')) = Str (u ''Warszawa'')"
  by (simp add: region_def region_pattern_def regex_defs)



section \<open>The Amenity Extractor\<close>

lemma amenity_cells:
  "amenity_indicator a col =
     (if str_ok col
      then Inr (map (\<lambda>x. Intg (if contains_cell (compile_phrase a) x then 1 else 0)) col)
      else Inl AttributeError)"
  by (simp add: amenity_indicator_def str_contains_def str_accessor_def comp_def)

lemma amenity_missing_cell: "\<not> contains_cell p (Flt v)"
  by (simp add: contains_cell_def)

lemma amenity_all_missing: "amenity_indicator a [Flt NaN, Flt NaN] = Inl AttributeError"
  by (simp add: amenity_cells str_ok_def is_str_def)

text \<open>
  C7 at a failing input: for the amenities text \<open>pom, uzytkowe\<close> the indicator of
  the phrase \<open>pom. uzytkowe\<close> is 1 although the phrase does not occur in the text,
  case ignored; the dot of the phrase is read as the wildcard of a regular
  expression.
\<close>

theorem amenity_dot_is_a_wildcard:
  "amenity_indicator (amenities ! 6) [Str pom_field] = Inr [Intg 1] \<and>
   \<not> spec_contains_ignorecase (amenities ! 6) pom_field"
  by (simp add: amenity_cells str_ok_def is_str_def contains_cell_def amenities_def
      compile_phrase_def pom_field_def lit_match_def unicode_tolower_def unicode_toupper_def
      unicode_iscased_def ignorecase_fixes_def u_def)

section \<open>The Outlier Filter\<close>

lemma quantile_present: "quantile (present vs) q = quantile vs q"
  by (simp add: quantile_def present_def)

lemma flt_NaN_right: "\<not> flt a NaN"
  by (cases a) simp_all

lemma retained_code:
  "spec_retained vs v \<longleftrightarrow>
     fgt v (fsub (quantile vs 0.25) (fmul (Fin 1.5) (fsub (quantile vs 0.75) (quantile vs 0.25)))) \<and>
     flt v (fadd (quantile vs 0.75) (fmul (Fin 1.5) (fsub (quantile vs 0.75) (quantile vs 0.25))))"
  by (cases "v = NaN")
    (simp_all add: spec_retained_def spec_fence_def quantile_present Let_def fgt_def flt_NaN_right)

lemma map2_same: "map2 f (map g xs) (map h xs) = map (\<lambda>x. f (g x) (h x)) xs"
  by (induction xs) simp_all

lemma remove_outliers_spec:
  assumes "getitem df column = Inr col" "float_values col = Inr vs"
  shows "remove_outliers df column = Inr (select_rows (map (spec_retained vs) vs) df)"
  using assms by (simp add: remove_outliers_def Let_def map2_same retained_code [abs_def])

lemma float_values_mask:
  "float_values col = Inr vs \<Longrightarrow> float_values (mask_series keep col) = Inr (mask_series keep vs)"
proof (induction col arbitrary: vs keep)
  case Nil
  then show ?case by (simp add: mask_series_def)
next
  case (Cons x xs)
  from Cons.prems obtain w ws where ws: "float_values xs = Inr ws" and vs: "vs = w # ws"
    and w: "float_values [x] = Inr [w]"
    by (cases x) (auto simp: bind_def split: sum.splits)
  show ?case
  proof (cases keep)
    case Nil
    then show ?thesis by (simp add: mask_series_def)
  next
    case (Cons k ks)
    from Cons.IH [OF ws, of ks] w show ?thesis
      by (cases x) (auto simp: mask_series_def vs Cons bind_def)
  qed
qed

lemma step10_spec:
  assumes "getitem df (u ''price'') = Inr pcol" "float_values pcol = Inr ps"
    and "getitem df (u ''size'') = Inr scol" "float_values scol = Inr ss"
  shows "step10 df =
     Inr (select_rows (map (spec_retained (mask_series (map (spec_retained ps) ps) ss))
                           (mask_series (map (spec_retained ps) ps) ss))
            (select_rows (map (spec_retained ps) ps) df))"
proof -
  let ?keep = "map (spec_retained ps) ps"
  have 1: "remove_outliers df (u ''price'') = Inr (select_rows ?keep df)"
    by (rule remove_outliers_spec [OF assms(1,2)])
  have 2: "getitem (select_rows ?keep df) (u ''size'') = Inr (mask_series ?keep scol)"
    by (rule getitem_select_rows [OF assms(3)])
  have 3: "float_values (mask_series ?keep scol) = Inr (mask_series ?keep ss)"
    by (rule float_values_mask [OF assms(4)])
  show ?thesis
    by (simp add: step10_def 1 remove_outliers_spec [OF 2 3])
qed


lemma sale_prices_retained:
  "map (spec_retained sale_prices) sale_prices = [True, True, True, True, False, False]"
  by (simp add: retained_code sale_prices_def quantile_def sort_floats_def fsub_def fgt_def
      Let_def)

lemma sale_sizes_retained:
  "map (spec_retained [Fin 10, Fin 20, Fin 30, Fin 1000]) [Fin 10, Fin 20, Fin 30, Fin 1000] =
     [True, True, True, False]"
  by (simp add: retained_code quantile_def sort_floats_def fsub_def fgt_def Let_def)


section \<open>The Target Transformer\<close>

lemma exp_log_positive: "0 < p \<Longrightarrow> np_exp (np_log (Fin p)) = Fin p"
  by simp

lemma float_values_Flt: "float_values (map Flt vs) = Inr vs"
  by (induction vs) simp_all

lemma step11_log:
  assumes "getitem df (u ''price'') = Inr col" "float_values col = Inr ps"
  shows "step11 df = Inr (setitem df (u ''log_price'') (map Flt (map np_log ps)))"
  using assms by (simp add: step11_def)

lemma exp_log_prices:
  "list_all (\<lambda>p. 0 < p) prices \<Longrightarrow> map np_exp (map (\<lambda>p. np_log (Fin p)) prices) = map Fin prices"
  by (induction prices) simp_all

lemma step16_original_units:
  assumes "list_all (\<lambda>p. 0 < p) prices"
  shows "step16 xgb_predict pl X_test (map (\<lambda>p. Flt (np_log (Fin p))) prices) =
     bind (model_predict xgb_predict pl X_test) (\<lambda>(pl1, out).
     bind (mean_absolute_error (map Fin prices) (map (\<lambda>x. Fin (exp x)) out)) (\<lambda>mae.
     Inr (pl1, mae)))"
proof -
  have fv: "float_values (map (\<lambda>p. Flt (np_log (Fin p))) prices) =
      Inr (map (\<lambda>p. np_log (Fin p)) prices)"
    by (induction prices) (simp_all del: np_log.simps)
  show ?thesis
    by (simp only: step16_def Let_def fv bind_Inr exp_log_prices [OF assms] np_exp.simps)
qed


lemma prepared_log_price: "getitem prepared (u ''log_price'') = Inr [Flt NaN, Flt (Fin 0)]"
  by (simp add: prepared_def getitem_def u_def)


lemma predict_size_only:
  "model_predict (\<lambda>m Xt. [ln 400000]) size_only [(u ''size'', [Flt (Fin 60)])] =
     Inr (size_only, [ln 400000])"
  by (simp add: model_predict_def size_only_def preprocessor_transform_def select_columns_def
      num_branch_transform_def cat_branch_transform_def
      numeric_transform_def no_infinity_def impute_def)


section \<open>The numeric features\<close>

lemma columns_setitem:
  "columns (setitem df c v) = (if c \<in> set (columns df) then columns df else columns df @ [c])"
  by (simp add: columns_def setitem_def update_keys)

lemma columns_select_rows: "columns (select_rows keep df) = columns df"
  by (induction df) (auto simp: columns_def select_rows_def)

lemma columns_drop:
  "drop_columns df cs = Inr df1 \<Longrightarrow> columns df1 = filter (\<lambda>c. c \<notin> set cs) (columns df)"
proof -
  have "map fst (filter (\<lambda>(c, s). c \<notin> set cs) df) = filter (\<lambda>c. c \<notin> set cs) (map fst df)"
    by (induction df) auto
  then show "drop_columns df cs = Inr df1 \<Longrightarrow> columns df1 = filter (\<lambda>c. c \<notin> set cs) (columns df)"
    by (auto simp: drop_columns_def columns_def split: if_splits)
qed

lemma distinct_setitem: "distinct (columns df) \<Longrightarrow> distinct (columns (setitem df c v))"
  by (simp add: columns_setitem)

lemma flagged_setitem: "rent_flagged df \<Longrightarrow> rent_flagged (setitem df c v)"
  by (simp add: rent_flagged_def columns_setitem)

lemma flagged_select_rows: "rent_flagged df \<Longrightarrow> rent_flagged (select_rows keep df)"
  by (simp add: rent_flagged_def columns_select_rows)

lemma flagged_drop:
  "drop_columns df cs = Inr df1 \<Longrightarrow> rent_flagged df \<Longrightarrow> u ''has_czynsz'' \<notin> set cs \<Longrightarrow>
     rent_flagged df1"
  by (simp add: rent_flagged_def columns_drop)

lemma bind_InrE:
  assumes "bind m f = Inr r"
  obtains v where "m = Inr v" "f v = Inr r"
  using assms by (cases m) (simp_all add: bind_def)

lemma step3_distinct: "step3 df = Inr df1 \<Longrightarrow> distinct (columns df) \<Longrightarrow> distinct (columns df1)"
  by (auto simp: step3_def bind_def distinct_setitem split: sum.splits)

lemma step4_distinct: "step4 df = Inr df1 \<Longrightarrow> distinct (columns df) \<Longrightarrow> distinct (columns df1)"
  by (auto simp: step4_def bind_def distinct_setitem split: sum.splits)

lemma step5_flags: "step5 df = Inr df1 \<Longrightarrow> distinct (columns df) \<Longrightarrow> rent_flagged df1"
  by (auto simp: step5_def bind_def rent_flagged_def columns_setitem split: sum.splits)

lemma step6_flagged:
  assumes "step6 df = Inr df1" "rent_flagged df"
  shows "rent_flagged df1"
proof -
  from assms(1) obtain df3 where d: "drop_columns df3 [u ''location''] = Inr df1"
    and df3: "\<exists>a b c. df3 = setitem (setitem (setitem df (u ''city'') a) (u ''neighborhood'') b)
      (u ''region'') c"
    unfolding step6_def Let_def by (elim bind_InrE) blast
  from df3 assms(2) have "rent_flagged df3"
    by (auto intro: flagged_setitem)
  moreover have "u ''has_czynsz'' \<notin> set [u ''location'']" by (simp add: u_def)
  ultimately show ?thesis using d by (rule flagged_drop [rotated])
qed

lemma step7_flagged: "step7 df = Inr df1 \<Longrightarrow> rent_flagged df \<Longrightarrow> rent_flagged df1"
  by (auto simp: step7_def dropna_def bind_def split: sum.splits
      intro!: flagged_select_rows flagged_setitem)

lemma step8_flagged: "step8 df = Inr df1 \<Longrightarrow> rent_flagged df \<Longrightarrow> rent_flagged df1"
  by (auto simp: step8_def bind_def split: sum.splits intro!: flagged_setitem)

lemma loop_flagged:
  "extract_amenities_loop as data = Inr d \<Longrightarrow> rent_flagged data \<Longrightarrow> rent_flagged d"
proof (induction as arbitrary: data)
  case Nil
  then show ?case by simp
next
  case (Cons a as)
  then show ?case
    by (auto simp: bind_def split: sum.splits intro: flagged_setitem)
qed

lemma step9_flagged:
  assumes "step9 df = Inr df1" "rent_flagged df"
  shows "rent_flagged df1"
proof -
  from assms(1) obtain df2 where l: "extract_amenities_loop amenities df = Inr df2"
    and d: "drop_columns df2 [info] = Inr df1"
    unfolding step9_def extract_amenities_def by (elim bind_InrE)
  from loop_flagged [OF l assms(2)] have "rent_flagged df2" .
  moreover have "u ''has_czynsz'' \<notin> set [info]" by (simp add: u_def info_def)
  ultimately show ?thesis using d by (rule flagged_drop [rotated])
qed

lemma remove_outliers_flagged:
  "remove_outliers df c = Inr df1 \<Longrightarrow> rent_flagged df \<Longrightarrow> rent_flagged df1"
  by (auto simp: remove_outliers_def bind_def Let_def split: sum.splits
      intro!: flagged_select_rows)

lemma step10_flagged: "step10 df = Inr df1 \<Longrightarrow> rent_flagged df \<Longrightarrow> rent_flagged df1"
  by (auto simp: step10_def bind_def split: sum.splits dest: remove_outliers_flagged)

lemma step11_flagged: "step11 df = Inr df1 \<Longrightarrow> rent_flagged df \<Longrightarrow> rent_flagged df1"
  by (auto simp: step11_def bind_def split: sum.splits intro!: flagged_setitem)

lemma prepare_flagged:
  assumes "prepare df0 = Inr df" "distinct (columns df0)"
  shows "rent_flagged df"
proof -
  from assms(1) obtain df3 df4 df5 df6 df7 df8 df9 df10 where
    s: "step3 df0 = Inr df3" "step4 df3 = Inr df4" "step5 df4 = Inr df5" "step6 df5 = Inr df6"
    "step7 df6 = Inr df7" "step8 df7 = Inr df8" "step9 df8 = Inr df9" "step10 df9 = Inr df10"
    "step11 df10 = Inr df"
    unfolding prepare_def by (elim bind_InrE) blast
  have "rent_flagged df5"
    by (rule step5_flags [OF s(3) step4_distinct [OF s(2) step3_distinct [OF s(1) assms(2)]]])
  then have "rent_flagged df9"
    by (intro step9_flagged [OF s(7)] step8_flagged [OF s(6)] step7_flagged [OF s(5)]
        step6_flagged [OF s(4)])
  then show ?thesis
    by (intro step11_flagged [OF s(9)] step10_flagged [OF s(8)])
qed

lemma distinct_count: "distinct xs \<Longrightarrow> x \<in> set xs \<Longrightarrow> count_list xs x = 1"
  by (induction xs) auto

lemma count_filter: "count_list (filter P xs) x = (if P x then count_list xs x else 0)"
  by (induction xs) auto

lemma flagged_count:
  assumes "rent_flagged df"
  shows "count_list (numerical_features df) (u ''has_czynsz'') = 2"
proof -
  from assms have "count_list (columns df) (u ''has_czynsz'') = 1"
    by (simp add: rent_flagged_def distinct_count)
  moreover have "starts_with (u ''has_czynsz'') (u ''has_'')" by (simp add: u_def)
  ultimately show ?thesis
    by (simp add: numerical_features_def count_filter) (simp add: u_def)
qed

lemma select_same:
  assumes "select_columns X names = Inr cols" "i < length names" "j < length names"
    and "names ! i = names ! j"
  shows "length cols = length names \<and> cols ! i = cols ! j"
proof -
  from sequence_Inr [OF assms(1) [unfolded select_columns_def]]
  have l: "length cols = length names"
    and n: "\<forall>k<length names.
      (case map_of X (names ! k) of None \<Rightarrow> Inl ValueError | Some s \<Rightarrow> Inr s) = Inr (cols ! k)"
    by simp_all
  from n [rule_format, OF assms(2)] n [rule_format, OF assms(3)] assms(4) l show ?thesis
    by simp
qed

lemma sequence_same:
  assumes "sequence (map f xs) = Inr ys" "i < length xs" "j < length xs" "xs ! i = xs ! j"
  shows "length ys = length xs \<and> ys ! i = ys ! j"
proof -
  from sequence_Inr [OF assms(1)]
  have l: "length ys = length xs" and n: "\<forall>k<length xs. f (xs ! k) = Inr (ys ! k)"
    by simp_all
  from n [rule_format, OF assms(2)] n [rule_format, OF assms(3)] assms(4) l show ?thesis
    by simp
qed

lemma num_branch_same:
  assumes fit: "num_branch_fit names X = Inr stats"
    and tr: "num_branch_transform stats names X1 = Inr out"
    and ij: "i < length names" "j < length names" "names ! i = names ! j"
  shows "length out = length names \<and> out ! i = out ! j"
proof -
  from fit obtain ncols nvals where a: "select_columns X names = Inr ncols"
    and b: "sequence (map float_values ncols) = Inr nvals"
    and c: "sequence (map numeric_fit nvals) = Inr stats"
    unfolding num_branch_fit_def by (elim bind_InrE)
  from select_same [OF a ij] have 1: "length ncols = length names" "ncols ! i = ncols ! j"
    by simp_all
  with sequence_same [OF b, of i j] ij have 2: "length nvals = length names" "nvals ! i = nvals ! j"
    by simp_all
  with sequence_same [OF c, of i j] ij have 3: "length stats = length names" "stats ! i = stats ! j"
    by simp_all
  from tr obtain mcols mvals where d: "select_columns X1 names = Inr mcols"
    and e: "sequence (map float_values mcols) = Inr mvals"
    and f: "sequence (map2 numeric_transform stats mvals) = Inr out"
    unfolding num_branch_transform_def by (elim bind_InrE)
  from select_same [OF d ij] have 4: "length mcols = length names" "mcols ! i = mcols ! j"
    by simp_all
  with sequence_same [OF e, of i j] ij have 5: "length mvals = length names" "mvals ! i = mvals ! j"
    by simp_all
  from 3 5 ij have "i < length (zip stats mvals)" "j < length (zip stats mvals)"
    "zip stats mvals ! i = zip stats mvals ! j"
    by simp_all
  from sequence_same [OF f this] 3 5 show ?thesis by simp
qed


lemma features_prepared:
  "numerical_features prepared =
     [u ''size'', u ''Czynsz'', u ''has_czynsz'', u ''price_per_sqm'', u ''has_czynsz'',
      u ''has_balkon'', u ''has_taras'', u ''has_gara'' @ [380] @ u ''_miejsce_parkingowe'',
      u ''has_piwnica'', u ''has_oddzielna_kuchnia'', u ''has_ogr'' @ [243] @ u ''dek'',
      u ''has_pom._u'' @ [380] @ u ''ytkowe'']"
  by (simp add: numerical_features_def prepared_def columns_def u_def)

lemma second_listing_columns:
  "select_columns second_listing (numerical_features prepared) =
     Inr [[Flt (Fin 10)], [Flt (Fin 500)], [Intg 0], [Flt (Fin 0.1)], [Intg 0], [Intg 1], [Intg 0],
          [Intg 0], [Intg 0], [Intg 0], [Intg 0], [Intg 0]]"
  unfolding features_prepared
  by (simp add: select_columns_def second_listing_def prepared_def select_rows_def
      mask_series_def u_def)

lemma fit_second:
  "num_branch_fit (numerical_features prepared) second_listing = Inr fitted_second"
  by (simp add: num_branch_fit_def second_listing_columns fitted_second_def numeric_fit_def
      no_infinity_def finite_values_def average_def impute_def)

lemma transform_second:
  "num_branch_transform fitted_second (numerical_features prepared) second_listing =
     Inr (replicate 12 [[0]])"
  by (simp add: num_branch_transform_def second_listing_columns fitted_second_def
      numeric_transform_def no_infinity_def impute_def numeral_eq_Suc)


section \<open>The Feature Pipeline\<close>

lemma transform_keeps_state:
  assumes "preprocessor_transform ct X = Inr (ct1, out)"
  shows "ct1 = ct"
proof (cases "fitted ct")
  case None
  with assms show ?thesis by (simp add: preprocessor_transform_def)
next
  case (Some st)
  with assms show ?thesis
    unfolding preprocessor_transform_def by (auto elim!: bind_InrE)
qed

lemma fit_transform_state:
  assumes "preprocessor_fit_transform ct X = Inr (ct1, Xt)"
  shows "\<exists>st. fit_statistics ct X = Inr st \<and> ct1 = ct\<lparr>fitted := Some st\<rparr>"
proof -
  from assms obtain ct2 where f: "preprocessor_fit ct X = Inr ct2"
    and t: "preprocessor_transform ct2 X = Inr (ct1, Xt)"
    unfolding preprocessor_fit_transform_def by (elim bind_InrE)
  from f obtain st where st: "fit_statistics ct X = Inr st" and ct2: "ct2 = ct\<lparr>fitted := Some st\<rparr>"
    unfolding preprocessor_fit_def by (elim bind_InrE) simp
  from transform_keeps_state [OF t] st ct2 show ?thesis by blast
qed

lemma model_fit_state:
  assumes "model_fit xgb_fit pl X y = Inr pl1"
  shows "fit_calls pl1 = fit_calls pl + 1 \<and>
         (\<exists>st. fit_statistics (pipeline_preprocessor pl) X = Inr st \<and>
               pipeline_preprocessor pl1 = (pipeline_preprocessor pl)\<lparr>fitted := Some st\<rparr>)"
proof -
  from assms obtain r where r: "preprocessor_fit_transform (pipeline_preprocessor pl) X = Inr r"
    and k: "(case r of (ct, Xt) \<Rightarrow> bind (xgb_fit Xt y) (\<lambda>m.
        Inr (pl\<lparr>pipeline_preprocessor := ct, regressor := Some m, fit_calls := fit_calls pl + 1\<rparr>))) =
      Inr pl1"
    unfolding model_fit_def by (elim bind_InrE)
  obtain ct Xt where rr: "r = (ct, Xt)" by (cases r)
  from k rr obtain m where
    pl1: "pl1 = pl\<lparr>pipeline_preprocessor := ct, regressor := Some m, fit_calls := fit_calls pl + 1\<rparr>"
    by (auto elim!: bind_InrE)
  from fit_transform_state [OF r [unfolded rr]] pl1 show ?thesis by simp
qed

lemma model_predict_state:
  assumes "model_predict xgb_predict pl X = Inr (pl1, preds)"
  shows "pl1 = pl"
proof (cases "regressor pl")
  case None
  with assms show ?thesis by (simp add: model_predict_def)
next
  case (Some m)
  with assms obtain r where r: "preprocessor_transform (pipeline_preprocessor pl) X = Inr r"
    and k: "(case r of (ct, Xt) \<Rightarrow> Inr (pl\<lparr>pipeline_preprocessor := ct\<rparr>, xgb_predict m Xt)) =
      Inr (pl1, preds)"
    unfolding model_predict_def by (auto elim!: bind_InrE)
  obtain ct Xt where rr: "r = (ct, Xt)" by (cases r)
  from transform_keeps_state [OF r [unfolded rr]] k rr show ?thesis by simp
qed

lemma step16_state:
  assumes "step16 xgb_predict pl X_test y_test = Inr (pl1, mae)"
  shows "pl1 = pl"
proof -
  from assms obtain r where r: "model_predict xgb_predict pl X_test = Inr r"
    and k: "(case r of (pl2, p) \<Rightarrow>
        let y_pred = map (\<lambda>x. np_exp (Fin x)) p in
        bind (float_values y_test) (\<lambda>yt.
        bind (mean_absolute_error (map np_exp yt) y_pred) (\<lambda>mae. Inr (pl2, mae)))) = Inr (pl1, mae)"
    unfolding step16_def by (elim bind_InrE)
  obtain pl2 p where rr: "r = (pl2, p)" by (cases r)
  from k rr have "pl2 = pl1"
    by (auto simp: Let_def elim!: bind_InrE)
  with model_predict_state [OF r [unfolded rr]] show ?thesis by simp
qed

lemma step15_state:
  assumes "step15 xgb_fit perm pl0 X y = Inr (pl, X_test, y_test)"
  shows "fit_calls pl = fit_calls pl0 + 1 \<and>
         (\<exists>X_train y_train st.
            train_test_split perm X y = Inr (X_train, X_test, y_train, y_test) \<and>
            fit_statistics (pipeline_preprocessor pl0) X_train = Inr st \<and>
            pipeline_preprocessor pl = (pipeline_preprocessor pl0)\<lparr>fitted := Some st\<rparr>)"
proof -
  from assms obtain r where r: "train_test_split perm X y = Inr r"
    and k: "(case r of (X_train, X_test, y_train, y_test) \<Rightarrow>
        bind (float_values y_train) (\<lambda>yt.
        bind (model_fit xgb_fit pl0 X_train yt) (\<lambda>pl1. Inr (pl1, X_test, y_test)))) =
      Inr (pl, X_test, y_test)"
    unfolding step15_def by (elim bind_InrE)
  obtain X_train X_t y_train y_t where rr: "r = (X_train, X_t, y_train, y_t)"
    by (cases r)
  from k rr obtain yt where m: "model_fit xgb_fit pl0 X_train yt = Inr pl"
    and t: "X_t = X_test" "y_t = y_test"
    by (auto elim!: bind_InrE)
  from model_fit_state [OF m] r rr t show ?thesis by blast
qed

text \<open>
  C9: the model of step 14 is not fitted and has seen no call of \<open>fit\<close>; step 15
  calls \<open>fit\<close> once, and the statistics it leaves in the preprocessor are those
  computed from the training partition of the split alone; a transformation
  returns the preprocessor as it was, so that the same input gives the same output
  again; and step 16, which transforms the test partition, leaves the whole
  pipeline as it was.
\<close>

theorem feature_pipeline_fit_once:
  "fit_calls (model df :: 'm pipeline) = 0 \<and> fitted (pipeline_preprocessor (model df :: 'm pipeline)) = None \<and>
   (step15 xgb_fit perm pl0 X y = Inr (pl, X_test, y_test) \<longrightarrow>
      fit_calls pl = fit_calls pl0 + 1 \<and>
      (\<exists>X_train y_train st.
         train_test_split perm X y = Inr (X_train, X_test, y_train, y_test) \<and>
         fit_statistics (pipeline_preprocessor pl0) X_train = Inr st \<and>
         pipeline_preprocessor pl = (pipeline_preprocessor pl0)\<lparr>fitted := Some st\<rparr>)) \<and>
   (preprocessor_transform ct X1 = Inr (ct1, out) \<longrightarrow>
      ct1 = ct \<and> preprocessor_transform ct1 X1 = Inr (ct1, out)) \<and>
   (step16 xgb_predict pl X_test y_test = Inr (pl2, mae) \<longrightarrow> pl2 = pl)"
  using step15_state [of xgb_fit perm pl0 X y pl X_test y_test]
    transform_keeps_state [of ct X1 ct1 out] step16_state [of xgb_predict pl X_test y_test pl2 mae]
  by (auto simp: model_def preprocessor_def)


lemma split_two_flats:
  "train_test_split [1, 0] two_flats [Flt (Fin (ln 500000)), Flt (Fin (ln 400000))] =
     Inr ([(u ''size'', [Flt (Fin 50)]), (u ''Rynek'', [Str (u ''pierwotny'')])], second_flat,
          [Flt (Fin (ln 500000))], [Flt (Fin (ln 400000))])"
  by (simp add: train_test_split_def two_flats_def second_flat_def nrows_def take_rows_def
      Let_def upt_rec)

lemma fit_first_flat:
  "model_fit (\<lambda>Xt y. Inr ()) small_model
     [(u ''size'', [Flt (Fin 50)]), (u ''Rynek'', [Str (u ''pierwotny'')])] [Fin (ln 500000)] =
     Inr small_fitted"
  by (simp add: model_fit_def preprocessor_fit_transform_def preprocessor_fit_def
      fit_statistics_def preprocessor_transform_def num_branch_fit_def num_branch_transform_def
      cat_branch_fit_def cat_branch_transform_def select_columns_def numeric_fit_def
      numeric_transform_def categorical_fit_def categorical_transform_def impute_constant_def
      no_infinity_def finite_values_def average_def impute_def small_model_def small_fitted_def
      u_def)

lemma step15_two_flats:
  "step15 (\<lambda>Xt y. Inr ()) [1, 0] small_model two_flats
     [Flt (Fin (ln 500000)), Flt (Fin (ln 400000))] =
     Inr (small_fitted, second_flat, [Flt (Fin (ln 400000))])"
  unfolding step15_def split_two_flats by (simp add: fit_first_flat)

lemma transform_second_flat:
  "preprocessor_transform (pipeline_preprocessor small_fitted) second_flat =
     Inr (pipeline_preprocessor small_fitted, [[10], [0]])"
  by (simp add: preprocessor_transform_def num_branch_transform_def cat_branch_transform_def
      select_columns_def numeric_transform_def categorical_transform_def impute_constant_def
      no_infinity_def impute_def small_fitted_def second_flat_def u_def)

lemma predict_second_flat:
  "model_predict (\<lambda>m Xt. [ln 300000]) small_fitted second_flat =
     Inr (small_fitted, [ln 300000])"
proof -
  have r: "regressor small_fitted = Some ()"
    by (simp add: small_fitted_def)
  show ?thesis
    unfolding model_predict_def r transform_second_flat by simp
qed

lemma step16_second_flat:
  "step16 (\<lambda>m Xt. [ln 300000]) small_fitted second_flat [Flt (Fin (ln 400000))] =
     Inr (small_fitted, 100000)"
  unfolding step16_def predict_second_flat
  by (simp add: mean_absolute_error_def all_finite_def finite_values_def average_def)

text \<open>The theorem for C9 on the two flats: the pipeline is fitted on the first
  and evaluated on the second.\<close>

theorem feature_pipeline_fit_once_witness:
  "step15 (\<lambda>Xt y. Inr ()) [1, 0] small_model two_flats
     [Flt (Fin (ln 500000)), Flt (Fin (ln 400000))] =
     Inr (small_fitted, second_flat, [Flt (Fin (ln 400000))]) \<and>
   preprocessor_transform (pipeline_preprocessor small_fitted) second_flat =
     Inr (pipeline_preprocessor small_fitted, [[10], [0]]) \<and>
   step16 (\<lambda>m Xt. [ln 300000]) small_fitted second_flat [Flt (Fin (ln 400000))] =
     Inr (small_fitted, 100000) \<and>
   fit_calls small_fitted = fit_calls small_model + 1 \<and>
   (\<exists>X_train y_train st.
      train_test_split [1, 0] two_flats [Flt (Fin (ln 500000)), Flt (Fin (ln 400000))] =
        Inr (X_train, second_flat, y_train, [Flt (Fin (ln 400000))]) \<and>
      fit_statistics (pipeline_preprocessor small_model) X_train = Inr st \<and>
      pipeline_preprocessor small_fitted = (pipeline_preprocessor small_model)\<lparr>fitted := Some st\<rparr>)"
  using feature_pipeline_fit_once [of _ "\<lambda>Xt y. Inr ()" "[1, 0]" small_model two_flats
      "[Flt (Fin (ln 500000)), Flt (Fin (ln 400000))]" small_fitted second_flat
      "[Flt (Fin (ln 400000))]" "pipeline_preprocessor small_fitted" second_flat
      "pipeline_preprocessor small_fitted" "[[10], [0]]" "\<lambda>m Xt. [ln 300000]" small_fitted
      "100000"]
    step15_two_flats transform_second_flat step16_second_flat
  by blast

end
